theory Spec2Isabelle
  imports Complex_Main "HOL-Library.Monad_Syntax" "HOL-Library.Log_Nat"
begin

section \<open>JavaScript values the mappers work on\<close>

text \<open>
  The mappers of the DVMM examples are straight-line TypeScript. What they do beyond
  copying fields is done by built-ins of the language: \<^verbatim>\<open>new Date(string)\<close>,
  \<^verbatim>\<open>Date.prototype.toISOString\<close>, the truthiness test of \<^verbatim>\<open>c ? a : b\<close>,
  \<^verbatim>\<open>Array.prototype.map\<close>. The built-ins are modelled after ECMAScript; a thrown
  exception is the left summand of \<open>error + 'a\<close>.
\<close>

datatype error = RangeError

text \<open>
  A \<^verbatim>\<open>Date\<close> object holds a time value: a whole number of milliseconds since
  1970-01-01T00:00:00Z, or NaN (an Invalid Date).
\<close>

datatype Date = InvalidDate | DateValue int

text \<open>
  A field declared \<^verbatim>\<open>f?: T | null\<close> is absent (reads as \<^verbatim>\<open>undefined\<close>), null or
  present.
\<close>

datatype 'a optional = Absent | Null | Present 'a

text \<open>
  What \<^verbatim>\<open>new Date(string)\<close> reads besides its argument: the local time zone of the
  host (\<open>LocalTZA h t\<close> is the offset, in milliseconds, of local time \<open>t\<close> from UTC),
  and the implementation-defined parsing that ECMAScript allows for a string that is not
  an instance of the Date Time String Format (\<open>None\<close> is NaN).
\<close>

record host =
  LocalTZA :: "int \<Rightarrow> int"
  legacyParse :: "string \<Rightarrow> int option"

subsection \<open>Decimal digits\<close>

definition digit_char :: "nat \<Rightarrow> char" where
  "digit_char n = char_of (48 + n)"

definition digit_val :: "char \<Rightarrow> nat option" where
  "digit_val c = (let n = (of_char c :: nat) in if 48 \<le> n \<and> n \<le> 57 then Some (n - 48) else None)"

text \<open>\<open>pad k n\<close>: the \<open>k\<close> low-order decimal digits of \<open>n\<close>, most significant first.\<close>

fun pad :: "nat \<Rightarrow> nat \<Rightarrow> string" where
  "pad 0 n = []"
| "pad (Suc k) n = pad k (n div 10) @ [digit_char (n mod 10)]"

text \<open>The value of a string of decimal digits, read from the left with accumulator \<open>a\<close>.\<close>

fun digits_acc :: "nat \<Rightarrow> string \<Rightarrow> nat option" where
  "digits_acc a [] = Some a"
| "digits_acc a (c # cs) =
     (case digit_val c of None \<Rightarrow> None | Some v \<Rightarrow> digits_acc (10 * a + v) cs)"

definition digits_val :: "string \<Rightarrow> nat option" where
  "digits_val s = (if s = [] then None else digits_acc 0 s)"

text \<open>Exactly \<open>k\<close> decimal digits at the front of \<open>s\<close>: their value and the rest.\<close>

definition take_digits :: "nat \<Rightarrow> string \<Rightarrow> (nat \<times> string) option" where
  "take_digits k s =
     (if length s < k then None
      else case digits_val (take k s) of None \<Rightarrow> None | Some n \<Rightarrow> Some (n, drop k s))"

definition expect :: "char \<Rightarrow> string \<Rightarrow> string option" where
  "expect c s = (case s of [] \<Rightarrow> None | x # r \<Rightarrow> if x = c then Some r else None)"

subsection \<open>Days, months and years (ECMAScript 21.4.1)\<close>

definition msPerDay :: int where
  "msPerDay = 86400000"

definition Day :: "int \<Rightarrow> int" where
  "Day t = t div msPerDay"

definition TimeWithinDay :: "int \<Rightarrow> int" where
  "TimeWithinDay t = t mod msPerDay"

definition DayFromYear :: "int \<Rightarrow> int" where
  "DayFromYear y =
     365 * (y - 1970) + (y - 1969) div 4 - (y - 1901) div 100 + (y - 1601) div 400"

definition leap_year :: "int \<Rightarrow> bool" where
  "leap_year y = (y mod 4 = 0 \<and> (y mod 100 \<noteq> 0 \<or> y mod 400 = 0))"

definition DaysInYear :: "int \<Rightarrow> int" where
  "DaysInYear y = (if leap_year y then 366 else 365)"

text \<open>The day within the year on which month \<open>m\<close> (0 = January) starts; \<open>m = 12\<close> is the
  start of the next year.\<close>

definition month_start :: "bool \<Rightarrow> nat \<Rightarrow> int" where
  "month_start lp m =
     [0, 31, 59, 90, 120, 151, 181, 212, 243, 273, 304, 334, 365] ! m
       + (if lp \<and> 2 \<le> m then 1 else 0)"

definition DaysInMonth :: "int \<Rightarrow> nat \<Rightarrow> int" where
  "DaysInMonth y m = month_start (leap_year y) (Suc m) - month_start (leap_year y) m"

text \<open>\<open>YearFromDay d\<close> is the year that day number \<open>d\<close> falls in: an estimate from the
  mean length of a Gregorian year, corrected by one where needed. ECMAScript defines the
  year as the largest \<open>y\<close> with \<open>DayFromYear y \<le> d\<close>; lemmas \<open>YearFromDay_bounds\<close> and
  \<open>YearFromDay_greatest\<close> show that this is it.\<close>

definition YearFromDay :: "int \<Rightarrow> int" where
  "YearFromDay d =
     (let y = 1970 + (400 * d) div 146097 in
      if DayFromYear (y + 1) \<le> d then y + 1
      else if d < DayFromYear y then y - 1
      else y)"

definition YearFromTime :: "int \<Rightarrow> int" where
  "YearFromTime t = YearFromDay (Day t)"

definition DayWithinYear :: "int \<Rightarrow> int" where
  "DayWithinYear t = Day t - DayFromYear (YearFromTime t)"

definition MonthFromTime :: "int \<Rightarrow> nat" where
  "MonthFromTime t =
     length (filter (\<lambda>m. month_start (leap_year (YearFromTime t)) m \<le> DayWithinYear t) [1..<12])"

definition DateFromTime :: "int \<Rightarrow> int" where
  "DateFromTime t =
     DayWithinYear t - month_start (leap_year (YearFromTime t)) (MonthFromTime t) + 1"

definition HourFromTime :: "int \<Rightarrow> int" where
  "HourFromTime t = TimeWithinDay t div 3600000"

definition MinFromTime :: "int \<Rightarrow> int" where
  "MinFromTime t = (TimeWithinDay t div 60000) mod 60"

definition SecFromTime :: "int \<Rightarrow> int" where
  "SecFromTime t = (TimeWithinDay t div 1000) mod 60"

definition msFromTime :: "int \<Rightarrow> int" where
  "msFromTime t = TimeWithinDay t mod 1000"

text \<open>\<open>MakeDay year month date\<close> with \<open>month\<close> counted from 0 and \<open>date\<close> from 1.\<close>

definition MakeDay :: "int \<Rightarrow> nat \<Rightarrow> nat \<Rightarrow> int" where
  "MakeDay y m d =
     (let ym = y + int (m div 12); mn = m mod 12
      in DayFromYear ym + month_start (leap_year ym) mn + int d - 1)"

definition MakeTime :: "nat \<Rightarrow> nat \<Rightarrow> nat \<Rightarrow> nat \<Rightarrow> int" where
  "MakeTime hh mi ss ms = int hh * 3600000 + int mi * 60000 + int ss * 1000 + int ms"

definition MakeDate :: "int \<Rightarrow> int \<Rightarrow> int" where
  "MakeDate day time = day * msPerDay + time"

text \<open>\<open>TimeClip\<close>: a time value further than 8.64e15 ms from the epoch is NaN.\<close>

definition TimeClip :: "int \<Rightarrow> int option" where
  "TimeClip t = (if 8640000000000000 < \<bar>t\<bar> then None else Some t)"

subsection \<open>The Date Time String Format (ECMAScript 21.4.1.32)\<close>

text \<open>
  \<^verbatim>\<open>YYYY-MM-DDTHH:mm:ss.sssZ\<close> and its shorter forms: the date-only forms
  \<^verbatim>\<open>YYYY\<close>, \<^verbatim>\<open>YYYY-MM\<close>, \<^verbatim>\<open>YYYY-MM-DD\<close>, each optionally followed by \<^verbatim>\<open>T\<close> and
  \<^verbatim>\<open>HH:mm\<close>, \<^verbatim>\<open>HH:mm:ss\<close> or \<^verbatim>\<open>HH:mm:ss.sss\<close> and an optional offset \<^verbatim>\<open>Z\<close>,
  \<^verbatim>\<open>+HH:mm\<close> or \<^verbatim>\<open>-HH:mm\<close>. A year is four digits, or a sign and six digits
  (\<^verbatim>\<open>-000000\<close> is not a year).
\<close>

datatype tz = NoOffset | OffsetMin int

definition parse_year :: "string \<Rightarrow> (int \<times> string) option" where
  "parse_year s =
     (case s of
        [] \<Rightarrow> None
      | c # r \<Rightarrow>
          if c = CHR ''+'' then
            (case take_digits 6 r of None \<Rightarrow> None | Some (y, r') \<Rightarrow> Some (int y, r'))
          else if c = CHR ''-'' then
            (case take_digits 6 r of None \<Rightarrow> None
             | Some (y, r') \<Rightarrow> if y = 0 then None else Some (- int y, r'))
          else
            (case take_digits 4 s of None \<Rightarrow> None | Some (y, r') \<Rightarrow> Some (int y, r')))"

text \<open>Year, month (from 1), day (from 1) and the rest of the string.\<close>

definition parse_date :: "string \<Rightarrow> (int \<times> nat \<times> nat \<times> string) option" where
  "parse_date s =
     do {
       (y, r1) \<leftarrow> parse_year s;
       (case expect CHR ''-'' r1 of
          None \<Rightarrow> Some (y, 1, 1, r1)
        | Some r2 \<Rightarrow>
            do {
              (m, r3) \<leftarrow> take_digits 2 r2;
              (case expect CHR ''-'' r3 of
                 None \<Rightarrow> Some (y, m, 1, r3)
               | Some r4 \<Rightarrow> do { (d, r5) \<leftarrow> take_digits 2 r4; Some (y, m, d, r5) })
            })
     }"

definition parse_offset :: "string \<Rightarrow> tz option" where
  "parse_offset s =
     (if s = [] then Some NoOffset
      else if s = ''Z'' then Some (OffsetMin 0)
      else if hd s = CHR ''+'' \<or> hd s = CHR ''-'' then
        do {
          (hh, r1) \<leftarrow> take_digits 2 (tl s);
          r2 \<leftarrow> expect CHR '':'' r1;
          (mm, r3) \<leftarrow> take_digits 2 r2;
          if r3 = [] \<and> hh \<le> 23 \<and> mm \<le> 59
          then Some (OffsetMin ((if hd s = CHR ''-'' then - 1 else 1) * int (hh * 60 + mm)))
          else None
        }
      else None)"

text \<open>Seconds and milliseconds: \<^verbatim>\<open>:ss\<close> and, only after it, \<^verbatim>\<open>.sss\<close>.\<close>

definition parse_seconds :: "string \<Rightarrow> (nat \<times> nat \<times> string) option" where
  "parse_seconds s =
     (case expect CHR '':'' s of
        None \<Rightarrow> Some (0, 0, s)
      | Some r1 \<Rightarrow>
          do {
            (ss, r2) \<leftarrow> take_digits 2 r1;
            (case expect CHR ''.'' r2 of
               None \<Rightarrow> Some (ss, 0, r2)
             | Some r3 \<Rightarrow> do { (ms, r4) \<leftarrow> take_digits 3 r3; Some (ss, ms, r4) })
          })"

text \<open>The time of day in milliseconds and the offset.\<close>

definition parse_time :: "string \<Rightarrow> (int \<times> tz) option" where
  "parse_time s =
     do {
       (hh, r1) \<leftarrow> take_digits 2 s;
       r2 \<leftarrow> expect CHR '':'' r1;
       (mi, r3) \<leftarrow> take_digits 2 r2;
       (ss, ms, r4) \<leftarrow> parse_seconds r3;
       z \<leftarrow> parse_offset r4;
       if (hh \<le> 23 \<and> mi \<le> 59 \<and> ss \<le> 59) \<or> (hh = 24 \<and> mi = 0 \<and> ss = 0 \<and> ms = 0)
       then Some (MakeTime hh mi ss ms, z)
       else None
     }"

text \<open>
  \<open>parse_iso s\<close>: for an instance of the format, the time value it denotes read as UTC,
  and how it is to be interpreted: \<open>Some (OffsetMin k)\<close> for an explicit offset of \<open>k\<close>
  minutes, \<open>Some NoOffset\<close> for a date-time form without offset (local time), \<open>None\<close> for
  a date-only form (UTC).
\<close>

definition parse_iso :: "string \<Rightarrow> (int \<times> tz option) option" where
  "parse_iso s =
     do {
       (y, m, d, r) \<leftarrow> parse_date s;
       if 1 \<le> m \<and> m \<le> 12 \<and> 1 \<le> d \<and> int d \<le> DaysInMonth y (m - 1) then
         (if r = [] then Some (MakeDate (MakeDay y (m - 1) d) 0, None)
          else
            do {
              r' \<leftarrow> expect CHR ''T'' r;
              (time, z) \<leftarrow> parse_time r';
              Some (MakeDate (MakeDay y (m - 1) d) time, Some z)
            })
       else None
     }"

text \<open>\<^verbatim>\<open>Date.parse\<close>: \<open>None\<close> is NaN.\<close>

definition Date_parse :: "host \<Rightarrow> string \<Rightarrow> int option" where
  "Date_parse h s =
     (case parse_iso s of
        None \<Rightarrow> legacyParse h s
      | Some (t, None) \<Rightarrow> TimeClip t
      | Some (t, Some NoOffset) \<Rightarrow> TimeClip (t - LocalTZA h t)
      | Some (t, Some (OffsetMin k)) \<Rightarrow> TimeClip (t - k * 60000))"

text \<open>\<^verbatim>\<open>new Date(s)\<close> for a string \<open>s\<close>: never throws; the time value is clipped.\<close>

definition Date_new :: "host \<Rightarrow> string \<Rightarrow> Date" where
  "Date_new h s =
     (case Option.bind (Date_parse h s) TimeClip of
        None \<Rightarrow> InvalidDate
      | Some t \<Rightarrow> DateValue t)"



text \<open>A year as \<^verbatim>\<open>toISOString\<close> prints it: four digits from 0 to 9999, otherwise a sign
  and six digits.\<close>

definition year_string :: "int \<Rightarrow> string" where
  "year_string y =
     (if 0 \<le> y \<and> y \<le> 9999 then pad 4 (nat y)
      else (if y < 0 then ''-'' else ''+'') @ pad 6 (nat \<bar>y\<bar>))"

text \<open>\<^verbatim>\<open>Date.prototype.toISOString\<close>: throws a RangeError on an Invalid Date.\<close>

definition Date_toISOString :: "Date \<Rightarrow> error + string" where
  "Date_toISOString d =
     (case d of
        InvalidDate \<Rightarrow> Inl RangeError
      | DateValue t \<Rightarrow>
          Inr (year_string (YearFromTime t) @ ''-'' @ pad 2 (MonthFromTime t + 1) @ ''-''
               @ pad 2 (nat (DateFromTime t)) @ ''T'' @ pad 2 (nat (HourFromTime t)) @ '':''
               @ pad 2 (nat (MinFromTime t)) @ '':'' @ pad 2 (nat (SecFromTime t)) @ ''.''
               @ pad 3 (nat (msFromTime t)) @ ''Z''))"

subsection \<open>Truthiness and arrays\<close>

text \<open>A string is falsy exactly when it is empty; null and undefined are falsy; every
  object, an Invalid Date too, is truthy.\<close>

definition truthy_string :: "string \<Rightarrow> bool" where
  "truthy_string s = (s \<noteq> [])"

text \<open>\<^verbatim>\<open>xs.map(f)\<close> where \<open>f\<close> may throw: the elements are mapped from the left and the
  first exception ends the call.\<close>

fun Array_map :: "('a \<Rightarrow> error + 'b) \<Rightarrow> 'a list \<Rightarrow> error + 'b list" where
  "Array_map f [] = Inr []"
| "Array_map f (x # xs) =
     (case f x of
        Inl e \<Rightarrow> Inl e
      | Inr y \<Rightarrow> (case Array_map f xs of Inl e \<Rightarrow> Inl e | Inr ys \<Rightarrow> Inr (y # ys)))"

subsection \<open>Numbers (ECMAScript 6.1.6.1)\<close>

text \<open>
  A Number is an IEEE 754 double: NaN, one of the two infinities, or a finite value, held
  here as the rational number it denotes. The two zeros are one value, as they are under
  \<^verbatim>\<open>===\<close>. Arithmetic is exact arithmetic on the rationals followed by \<open>fl\<close>, the rounding
  to the nearest double (ties to the even significand), which is how IEEE 754 defines it.
\<close>

datatype number = NaN | PosInfinity | NegInfinity | Finite rat

text \<open>\<open>floor_log2 q\<close> for \<open>0 < q\<close>: the \<open>e\<close> with \<open>2 ^ e \<le> q < 2 ^ (e + 1)\<close>, found from the
  bit lengths of numerator and denominator.\<close>

definition floor_log2 :: "rat \<Rightarrow> int" where
  "floor_log2 q =
     (let d = bitlen (fst (quotient_of q)) - bitlen (snd (quotient_of q))
      in if 2 powi d \<le> q then d else d - 1)"

definition round_half_even :: "rat \<Rightarrow> int" where
  "round_half_even q =
     (let f = \<lfloor>q\<rfloor>; r = q - of_int f
      in if r < 1 / 2 then f else if 1 / 2 < r then f + 1 else if even f then f else f + 1)"

text \<open>A double is \<open>m * 2 ^ e\<close> with \<open>\<bar>m\<bar> < 2 ^ 53\<close> and \<open>- 1074 \<le> e \<le> 971\<close>; what rounds to
  \<open>2 ^ 1024\<close> or beyond is an infinity.\<close>

definition fl :: "rat \<Rightarrow> number" where
  "fl q =
     (if q = 0 then Finite 0
      else
        let e = max (floor_log2 \<bar>q\<bar> - 52) (- 1074);
            m = round_half_even (\<bar>q\<bar> / 2 powi e);
            r = of_int m * 2 powi e
        in if 2 powi 1024 \<le> r then (if q < 0 then NegInfinity else PosInfinity)
           else Finite (if q < 0 then - r else r))"

text \<open>\<^verbatim>\<open>x / c\<close> and \<^verbatim>\<open>x * c\<close> for a finite constant \<open>c > 0\<close> (the mappers divide and
  multiply by 100 only).\<close>

definition Number_divide :: "number \<Rightarrow> rat \<Rightarrow> number" where
  "Number_divide x c = (case x of Finite q \<Rightarrow> fl (q / c) | _ \<Rightarrow> x)"

definition Number_multiply :: "number \<Rightarrow> rat \<Rightarrow> number" where
  "Number_multiply x c = (case x of Finite q \<Rightarrow> fl (q * c) | _ \<Rightarrow> x)"

text \<open>\<^verbatim>\<open>Math.round\<close>: the nearest integer, a tie going towards \<open>+\<infinity>\<close>; NaN and the
  infinities are returned as they are.\<close>

definition Math_round :: "number \<Rightarrow> number" where
  "Math_round x = (case x of Finite q \<Rightarrow> Finite (of_int \<lfloor>q + 1 / 2\<rfloor>) | _ \<Rightarrow> x)"

text \<open>The decimal digits of an integer \<open>n \<ge> 0\<close>, without leading zeros.\<close>

function decimal :: "int \<Rightarrow> string" where
  "decimal n =
     (if n < 10 then [digit_char (nat n)]
      else decimal (n div 10) @ [digit_char (nat (n mod 10))])"
  by pat_completeness auto
termination
  by (relation "measure nat") auto

declare decimal.simps [simp del]

text \<open>
  \<^verbatim>\<open>Number::toString\<close> for a finite \<open>a \<ge> 10 ^ 21\<close>, the only case \<^verbatim>\<open>toFixed\<close> hands to
  it: with \<open>n\<close> the number of digits of the integer part, the least \<open>k\<close> and an \<open>s\<close> of \<open>k\<close>
  digits such that \<open>s * 10 ^ (n - k)\<close> rounds to \<open>a\<close> (of the two \<open>s\<close> next to \<open>a\<close> the
  nearer is tried first), printed as \<^verbatim>\<open>d.ddde+x\<close>. Seventeen digits always suffice for a
  double.
\<close>

definition exp_candidate :: "rat \<Rightarrow> nat \<Rightarrow> nat \<Rightarrow> int option" where
  "exp_candidate a n k =
     (let p = n - k;
          lo = \<lfloor>a / 10 ^ p\<rfloor>;
          hi = lo + 1;
          cs = (if a - of_int lo * 10 ^ p \<le> of_int hi * 10 ^ p - a then [lo, hi] else [hi, lo])
      in List.find (\<lambda>s. fl (of_int s * 10 ^ p) = Finite a) cs)"

definition Number_toString_exp :: "rat \<Rightarrow> string" where
  "Number_toString_exp a =
     (let n = length (decimal \<lfloor>a\<rfloor>)
      in case List.map_filter (\<lambda>k. map_option (\<lambda>s. (s, k)) (exp_candidate a n k)) [1..<18] of
           [] \<Rightarrow> decimal \<lfloor>a\<rfloor>
         | (s, k) # _ \<Rightarrow>
             let ds = decimal s;
                 e = n - k + length ds - 1;
                 sig = rev (dropWhile (\<lambda>c. c = CHR ''0'') (rev ds))
             in hd sig # (if tl sig = [] then [] else ''.'' @ tl sig) @ ''e+'' @ decimal e)"

text \<open>
  \<^verbatim>\<open>Number.prototype.toFixed(f)\<close>: a RangeError unless \<open>0 \<le> f \<le> 100\<close>; otherwise the
  integer \<open>n\<close> nearest to \<open>\<bar>x\<bar> * 10 ^ f\<close> (the larger on a tie), printed with \<open>f\<close> digits
  after the point and a minus sign when \<open>x < 0\<close>.
\<close>

definition Number_toFixed :: "number \<Rightarrow> int \<Rightarrow> error + string" where
  "Number_toFixed x f =
     (if f < 0 \<or> 100 < f then Inl RangeError
      else Inr
        (case x of
           NaN \<Rightarrow> ''NaN''
         | PosInfinity \<Rightarrow> ''Infinity''
         | NegInfinity \<Rightarrow> ''-Infinity''
         | Finite q \<Rightarrow>
             (if q < 0 then ''-'' else '''') @
             (if 10 ^ 21 \<le> \<bar>q\<bar> then Number_toString_exp \<bar>q\<bar>
              else
                let m = decimal \<lfloor>\<bar>q\<bar> * 10 ^ nat f + 1 / 2\<rfloor>;
                    z = (if length m \<le> nat f then replicate (nat f + 1 - length m) CHR ''0'' @ m
                         else m);
                    k = length z
                in if f = 0 then z else take (k - nat f) z @ ''.'' @ drop (k - nat f) z)))"

text \<open>What \<^verbatim>\<open>toFixed(2)\<close> writes after the sign for the integer \<open>n\<close> of hundredths.\<close>

definition fixed2 :: "int \<Rightarrow> string" where
  "fixed2 n =
     (let m = decimal n;
          z = (if length m \<le> 2 then replicate (3 - length m) CHR ''0'' @ m else m)
      in take (length z - 2) z @ ''.'' @ drop (length z - 2) z)"

text \<open>
  \<^verbatim>\<open>parseFloat\<close>: leading white space is skipped, then the longest prefix that is a
  \<^verbatim>\<open>StrDecimalLiteral\<close> is read (a sign, then \<^verbatim>\<open>Infinity\<close> or digits with an optional
  fraction and an optional exponent) and what follows it is ignored; NaN when there is
  no such prefix. Strings are lists of 8-bit code units here, so the white space is the
  ASCII white space and the no-break space.
\<close>

definition is_space :: "char \<Rightarrow> bool" where
  "is_space c = (of_char c \<in> {9, 10, 11, 12, 13, 32, 160 :: nat})"

definition is_digit :: "char \<Rightarrow> bool" where
  "is_digit c = (digit_val c \<noteq> None)"

definition digits_value :: "string \<Rightarrow> int" where
  "digits_value ds = foldl (\<lambda>a c. 10 * a + (of_char c - 48)) 0 ds"

text \<open>The value of an \<^verbatim>\<open>ExponentPart\<close> at the front of a string; 0 when there is none.\<close>

definition exponent_part :: "string \<Rightarrow> int" where
  "exponent_part s =
     (if s \<noteq> [] \<and> (hd s = CHR ''e'' \<or> hd s = CHR ''E'') then
        let r = tl s;
            neg = (r \<noteq> [] \<and> hd r = CHR ''-'');
            u = (if r \<noteq> [] \<and> (hd r = CHR ''+'' \<or> hd r = CHR ''-'') then tl r else r);
            ds = takeWhile is_digit u
        in if ds = [] then 0 else if neg then - digits_value ds else digits_value ds
      else 0)"

definition parseFloat :: "string \<Rightarrow> number" where
  "parseFloat input =
     (let s = dropWhile is_space input;
          neg = (s \<noteq> [] \<and> hd s = CHR ''-'');
          u = (if s \<noteq> [] \<and> (hd s = CHR ''+'' \<or> hd s = CHR ''-'') then tl s else s)
      in if take 8 u = ''Infinity'' then (if neg then NegInfinity else PosInfinity)
         else
           let ip = takeWhile is_digit u;
               r1 = dropWhile is_digit u;
               dot = (r1 \<noteq> [] \<and> hd r1 = CHR ''.'');
               fp = (if dot then takeWhile is_digit (tl r1) else []);
               r2 = (if dot then dropWhile is_digit (tl r1) else r1)
           in if ip = [] \<and> fp = [] then NaN
              else
                let mv = of_int (digits_value (ip @ fp)) / 10 ^ length fp
                           * 10 powi exponent_part r2
                in fl (if neg then - mv else mv))"

text \<open>\<^verbatim>\<open>s.replace(c, '')\<close> for a pattern \<open>c\<close> of one character: the first occurrence of
  \<open>c\<close> is removed.\<close>

definition String_remove_first :: "char \<Rightarrow> string \<Rightarrow> string" where
  "String_remove_first c s = remove1 c s"

section \<open>Todo list: a flat model\<close>

text \<open>
  Field \<open>f\<close> of \<^verbatim>\<open>TodoDomainModel\<close> is \<open>TodoD_f\<close>, of \<^verbatim>\<open>TodoViewModel\<close> \<open>TodoV_f\<close>,
  and so on for every model.
  \<^verbatim>\<open>
  toViewModel(domain) { return {
      id: domain.id, text: domain.text, isDone: domain.completed,
      dueDate: domain.due_date ? new Date(domain.due_date) : null }; }
  toDomainModel(view) { return {
      id: view.id, text: view.text, completed: view.isDone,
      due_date: view.dueDate ? view.dueDate.toISOString() : null }; }
  \<close>
\<close>

record TodoDomainModel =
  TodoD_id :: string
  TodoD_text :: string
  TodoD_completed :: bool
  TodoD_due_date :: "string option"

record TodoViewModel =
  TodoV_id :: string
  TodoV_text :: string
  TodoV_isDone :: bool
  TodoV_dueDate :: "Date option"

definition TodoMapper_toViewModel :: "host \<Rightarrow> TodoDomainModel \<Rightarrow> error + TodoViewModel" where
  "TodoMapper_toViewModel h domain =
     Inr \<lparr> TodoV_id = TodoD_id domain,
           TodoV_text = TodoD_text domain,
           TodoV_isDone = TodoD_completed domain,
           TodoV_dueDate =
             (case TodoD_due_date domain of
                None \<Rightarrow> None
              | Some s \<Rightarrow> if truthy_string s then Some (Date_new h s) else None) \<rparr>"

definition TodoMapper_toDomainModel :: "TodoViewModel \<Rightarrow> error + TodoDomainModel" where
  "TodoMapper_toDomainModel view =
     (case (case TodoV_dueDate view of
              None \<Rightarrow> Inr None
            | Some d \<Rightarrow> (case Date_toISOString d of Inl e \<Rightarrow> Inl e | Inr s \<Rightarrow> Inr (Some s))) of
        Inl e \<Rightarrow> Inl e
      | Inr due \<Rightarrow>
          Inr \<lparr> TodoD_id = TodoV_id view,
                TodoD_text = TodoV_text view,
                TodoD_completed = TodoV_isDone view,
                TodoD_due_date = due \<rparr>)"

section \<open>Blog: a post with its author\<close>

record AuthorDomainModel =
  AuthorD_id :: string
  AuthorD_name :: string
  AuthorD_avatar_url :: string

record AuthorViewModel =
  AuthorV_id :: string
  AuthorV_displayName :: string
  AuthorV_avatarUrl :: string

record PostDomainModel =
  PostD_id :: string
  PostD_title :: string
  PostD_content :: string
  PostD_author :: AuthorDomainModel
  PostD_published_at :: string

record PostViewModel =
  PostV_id :: string
  PostV_title :: string
  PostV_content :: string
  PostV_author :: AuthorViewModel
  PostV_publishedAt :: Date

definition AuthorMapper_toViewModel :: "AuthorDomainModel \<Rightarrow> error + AuthorViewModel" where
  "AuthorMapper_toViewModel domain =
     Inr \<lparr> AuthorV_id = AuthorD_id domain,
           AuthorV_displayName = AuthorD_name domain,
           AuthorV_avatarUrl = AuthorD_avatar_url domain \<rparr>"

definition AuthorMapper_toDomainModel :: "AuthorViewModel \<Rightarrow> error + AuthorDomainModel" where
  "AuthorMapper_toDomainModel view =
     Inr \<lparr> AuthorD_id = AuthorV_id view,
           AuthorD_name = AuthorV_displayName view,
           AuthorD_avatar_url = AuthorV_avatarUrl view \<rparr>"

text \<open>The fields of the object literal are evaluated in the order they are written.\<close>

definition PostMapper_toViewModel :: "host \<Rightarrow> PostDomainModel \<Rightarrow> error + PostViewModel" where
  "PostMapper_toViewModel h domain =
     (case AuthorMapper_toViewModel (PostD_author domain) of
        Inl e \<Rightarrow> Inl e
      | Inr a \<Rightarrow>
          Inr \<lparr> PostV_id = PostD_id domain,
                PostV_title = PostD_title domain,
                PostV_content = PostD_content domain,
                PostV_author = a,
                PostV_publishedAt = Date_new h (PostD_published_at domain) \<rparr>)"

definition PostMapper_toDomainModel :: "PostViewModel \<Rightarrow> error + PostDomainModel" where
  "PostMapper_toDomainModel view =
     (case AuthorMapper_toDomainModel (PostV_author view) of
        Inl e \<Rightarrow> Inl e
      | Inr a \<Rightarrow>
          (case Date_toISOString (PostV_publishedAt view) of
             Inl e \<Rightarrow> Inl e
           | Inr s \<Rightarrow>
               Inr \<lparr> PostD_id = PostV_id view,
                     PostD_title = PostV_title view,
                     PostD_content = PostV_content view,
                     PostD_author = a,
                     PostD_published_at = s \<rparr>))"

section \<open>Messaging: an optional attachment\<close>

text \<open>The string literal type \<^verbatim>\<open>'image' | 'file'\<close>.\<close>

datatype attachment_type = Image | File

record AttachmentDomainModel =
  AttachmentD_id :: string
  AttachmentD_url :: string
  AttachmentD_type :: attachment_type

record AttachmentViewModel =
  AttachmentV_id :: string
  AttachmentV_url :: string
  AttachmentV_kind :: attachment_type

record MessageDomainModel =
  MessageD_id :: string
  MessageD_sender :: string
  MessageD_text :: string
  MessageD_sent_at :: string
  MessageD_attachment :: "AttachmentDomainModel optional"

record MessageViewModel =
  MessageV_id :: string
  MessageV_sender :: string
  MessageV_text :: string
  MessageV_sentAt :: Date
  MessageV_attachment :: "AttachmentViewModel optional"

definition AttachmentMapper_toViewModel ::
  "AttachmentDomainModel \<Rightarrow> error + AttachmentViewModel" where
  "AttachmentMapper_toViewModel domain =
     Inr \<lparr> AttachmentV_id = AttachmentD_id domain,
           AttachmentV_url = AttachmentD_url domain,
           AttachmentV_kind = AttachmentD_type domain \<rparr>"

definition AttachmentMapper_toDomainModel ::
  "AttachmentViewModel \<Rightarrow> error + AttachmentDomainModel" where
  "AttachmentMapper_toDomainModel view =
     Inr \<lparr> AttachmentD_id = AttachmentV_id view,
           AttachmentD_url = AttachmentV_url view,
           AttachmentD_type = AttachmentV_kind view \<rparr>"

text \<open>
  \<^verbatim>\<open>attachment: domain.attachment ? attachmentMapper.toViewModel(domain.attachment) : null\<close>
\<close>

definition MessageMapper_toViewModel ::
  "host \<Rightarrow> MessageDomainModel \<Rightarrow> error + MessageViewModel" where
  "MessageMapper_toViewModel h domain =
     (case (case MessageD_attachment domain of
              Present a \<Rightarrow>
                (case AttachmentMapper_toViewModel a of Inl e \<Rightarrow> Inl e | Inr a' \<Rightarrow> Inr (Present a'))
            | _ \<Rightarrow> Inr Null) of
        Inl e \<Rightarrow> Inl e
      | Inr att \<Rightarrow>
          Inr \<lparr> MessageV_id = MessageD_id domain,
                MessageV_sender = MessageD_sender domain,
                MessageV_text = MessageD_text domain,
                MessageV_sentAt = Date_new h (MessageD_sent_at domain),
                MessageV_attachment = att \<rparr>)"

definition MessageMapper_toDomainModel :: "MessageViewModel \<Rightarrow> error + MessageDomainModel" where
  "MessageMapper_toDomainModel view =
     (case Date_toISOString (MessageV_sentAt view) of
        Inl e \<Rightarrow> Inl e
      | Inr s \<Rightarrow>
          (case (case MessageV_attachment view of
                   Present a \<Rightarrow>
                     (case AttachmentMapper_toDomainModel a of
                        Inl e \<Rightarrow> Inl e
                      | Inr a' \<Rightarrow> Inr (Present a'))
                 | _ \<Rightarrow> Inr Null) of
             Inl e \<Rightarrow> Inl e
           | Inr att \<Rightarrow>
               Inr \<lparr> MessageD_id = MessageV_id view,
                     MessageD_sender = MessageV_sender view,
                     MessageD_text = MessageV_text view,
                     MessageD_sent_at = s,
                     MessageD_attachment = att \<rparr>))"

section \<open>Project management: a project with an array of tasks\<close>

text \<open>The \<^verbatim>\<open>UserDomainModel\<close> of this example is \<open>AssigneeDomainModel\<close> here, and its
  \<^verbatim>\<open>UserMapper\<close> \<open>AssigneeMapper\<close>: the user-management example has another model and
  another mapper of these names.\<close>

record AssigneeDomainModel =
  AssigneeD_id :: string
  AssigneeD_name :: string

record AssigneeViewModel =
  AssigneeV_id :: string
  AssigneeV_displayName :: string

record TaskDomainModel =
  TaskD_id :: string
  TaskD_title :: string
  TaskD_completed :: bool
  TaskD_assignee :: AssigneeDomainModel

record TaskViewModel =
  TaskV_id :: string
  TaskV_title :: string
  TaskV_isDone :: bool
  TaskV_assignee :: AssigneeViewModel

record ProjectDomainModel =
  ProjectD_id :: string
  ProjectD_name :: string
  ProjectD_tasks :: "TaskDomainModel list"

record ProjectViewModel =
  ProjectV_id :: string
  ProjectV_name :: string
  ProjectV_tasks :: "TaskViewModel list"

definition AssigneeMapper_toViewModel :: "AssigneeDomainModel \<Rightarrow> error + AssigneeViewModel" where
  "AssigneeMapper_toViewModel domain =
     Inr \<lparr> AssigneeV_id = AssigneeD_id domain, AssigneeV_displayName = AssigneeD_name domain \<rparr>"

definition AssigneeMapper_toDomainModel :: "AssigneeViewModel \<Rightarrow> error + AssigneeDomainModel" where
  "AssigneeMapper_toDomainModel view =
     Inr \<lparr> AssigneeD_id = AssigneeV_id view, AssigneeD_name = AssigneeV_displayName view \<rparr>"

definition TaskMapper_toViewModel :: "TaskDomainModel \<Rightarrow> error + TaskViewModel" where
  "TaskMapper_toViewModel domain =
     (case AssigneeMapper_toViewModel (TaskD_assignee domain) of
        Inl e \<Rightarrow> Inl e
      | Inr a \<Rightarrow>
          Inr \<lparr> TaskV_id = TaskD_id domain,
                TaskV_title = TaskD_title domain,
                TaskV_isDone = TaskD_completed domain,
                TaskV_assignee = a \<rparr>)"

definition TaskMapper_toDomainModel :: "TaskViewModel \<Rightarrow> error + TaskDomainModel" where
  "TaskMapper_toDomainModel view =
     (case AssigneeMapper_toDomainModel (TaskV_assignee view) of
        Inl e \<Rightarrow> Inl e
      | Inr a \<Rightarrow>
          Inr \<lparr> TaskD_id = TaskV_id view,
                TaskD_title = TaskV_title view,
                TaskD_completed = TaskV_isDone view,
                TaskD_assignee = a \<rparr>)"

text \<open>\<^verbatim>\<open>tasks: domain.tasks.map(task => taskMapper.toViewModel(task))\<close>\<close>

definition ProjectMapper_toViewModel :: "ProjectDomainModel \<Rightarrow> error + ProjectViewModel" where
  "ProjectMapper_toViewModel domain =
     (case Array_map TaskMapper_toViewModel (ProjectD_tasks domain) of
        Inl e \<Rightarrow> Inl e
      | Inr ts \<Rightarrow>
          Inr \<lparr> ProjectV_id = ProjectD_id domain,
                ProjectV_name = ProjectD_name domain,
                ProjectV_tasks = ts \<rparr>)"

definition ProjectMapper_toDomainModel :: "ProjectViewModel \<Rightarrow> error + ProjectDomainModel" where
  "ProjectMapper_toDomainModel view =
     (case Array_map TaskMapper_toDomainModel (ProjectV_tasks view) of
        Inl e \<Rightarrow> Inl e
      | Inr ts \<Rightarrow>
          Inr \<lparr> ProjectD_id = ProjectV_id view,
                ProjectD_name = ProjectV_name view,
                ProjectD_tasks = ts \<rparr>)"

section \<open>User management: a user with an array of roles\<close>

record RoleDomainModel =
  RoleD_id :: string
  RoleD_name :: string

record RoleViewModel =
  RoleV_id :: string
  RoleV_label :: string

record UserDomainModel =
  UserD_id :: string
  UserD_email :: string
  UserD_display_name :: string
  UserD_roles :: "RoleDomainModel list"

record UserViewModel =
  UserV_id :: string
  UserV_email :: string
  UserV_name :: string
  UserV_roles :: "RoleViewModel list"

definition RoleMapper_toViewModel :: "RoleDomainModel \<Rightarrow> error + RoleViewModel" where
  "RoleMapper_toViewModel domain =
     Inr \<lparr> RoleV_id = RoleD_id domain, RoleV_label = RoleD_name domain \<rparr>"

definition RoleMapper_toDomainModel :: "RoleViewModel \<Rightarrow> error + RoleDomainModel" where
  "RoleMapper_toDomainModel view =
     Inr \<lparr> RoleD_id = RoleV_id view, RoleD_name = RoleV_label view \<rparr>"

definition UserMapper_toViewModel :: "UserDomainModel \<Rightarrow> error + UserViewModel" where
  "UserMapper_toViewModel domain =
     (case Array_map RoleMapper_toViewModel (UserD_roles domain) of
        Inl e \<Rightarrow> Inl e
      | Inr rs \<Rightarrow>
          Inr \<lparr> UserV_id = UserD_id domain,
                UserV_email = UserD_email domain,
                UserV_name = UserD_display_name domain,
                UserV_roles = rs \<rparr>)"

definition UserMapper_toDomainModel :: "UserViewModel \<Rightarrow> error + UserDomainModel" where
  "UserMapper_toDomainModel view =
     (case Array_map RoleMapper_toDomainModel (UserV_roles view) of
        Inl e \<Rightarrow> Inl e
      | Inr rs \<Rightarrow>
          Inr \<lparr> UserD_id = UserV_id view,
                UserD_email = UserV_email view,
                UserD_display_name = UserV_name view,
                UserD_roles = rs \<rparr>)"

section \<open>E-commerce: a product with a formatted price\<close>

text \<open>
  \<^verbatim>\<open>
  toViewModel(domain) { return {
      id: domain.id, name: domain.name,
      price: `$${(domain.price_cents / 100).toFixed(2)}`,
      category: categoryMapper.toViewModel(domain.category),
      imageUrl: domain.image_url }; }
  toDomainModel(view) { return {
      id: view.id, name: view.name,
      price_cents: Math.round(parseFloat(view.price.replace('$', '')) * 100),
      category: categoryMapper.toDomainModel(view.category),
      image_url: view.imageUrl }; }
  \<close>
\<close>

record CategoryDomainModel =
  CategoryD_id :: string
  CategoryD_name :: string

record CategoryViewModel =
  CategoryV_id :: string
  CategoryV_label :: string

record ProductDomainModel =
  ProductD_id :: string
  ProductD_name :: string
  ProductD_price_cents :: number
  ProductD_category :: CategoryDomainModel
  ProductD_image_url :: string

record ProductViewModel =
  ProductV_id :: string
  ProductV_name :: string
  ProductV_price :: string
  ProductV_category :: CategoryViewModel
  ProductV_imageUrl :: string

definition CategoryMapper_toViewModel :: "CategoryDomainModel \<Rightarrow> error + CategoryViewModel" where
  "CategoryMapper_toViewModel domain =
     Inr \<lparr> CategoryV_id = CategoryD_id domain, CategoryV_label = CategoryD_name domain \<rparr>"

definition CategoryMapper_toDomainModel :: "CategoryViewModel \<Rightarrow> error + CategoryDomainModel" where
  "CategoryMapper_toDomainModel view =
     Inr \<lparr> CategoryD_id = CategoryV_id view, CategoryD_name = CategoryV_label view \<rparr>"

definition ProductMapper_toViewModel :: "ProductDomainModel \<Rightarrow> error + ProductViewModel" where
  "ProductMapper_toViewModel domain =
     (case Number_toFixed (Number_divide (ProductD_price_cents domain) 100) 2 of
        Inl e \<Rightarrow> Inl e
      | Inr p \<Rightarrow>
          (case CategoryMapper_toViewModel (ProductD_category domain) of
             Inl e \<Rightarrow> Inl e
           | Inr c \<Rightarrow>
               Inr \<lparr> ProductV_id = ProductD_id domain,
                     ProductV_name = ProductD_name domain,
                     ProductV_price = ''$'' @ p,
                     ProductV_category = c,
                     ProductV_imageUrl = ProductD_image_url domain \<rparr>))"

definition ProductMapper_toDomainModel :: "ProductViewModel \<Rightarrow> error + ProductDomainModel" where
  "ProductMapper_toDomainModel view =
     (case CategoryMapper_toDomainModel (ProductV_category view) of
        Inl e \<Rightarrow> Inl e
      | Inr c \<Rightarrow>
          Inr \<lparr> ProductD_id = ProductV_id view,
                ProductD_name = ProductV_name view,
                ProductD_price_cents =
                  Math_round
                    (Number_multiply
                       (parseFloat (String_remove_first CHR ''$'' (ProductV_price view))) 100),
                ProductD_category = c,
                ProductD_image_url = ProductV_imageUrl view \<rparr>)"

section \<open>Getting started: the post of the guide and its test\<close>

text \<open>
  The guide has a \<^verbatim>\<open>PostMapper\<close> of its own, for a post with two dates and a count of
  stars, and a test of it:
  \<^verbatim>\<open>
  it('should convert view model back to domain model', () => {
      const viewPost = postMapper.toViewModel(domainPost);
      const backToDomain = postMapper.toDomainModel(viewPost);
      expect(backToDomain).toDeepEqual(domainPost);
  });
  \<close>
\<close>

record GuidePostDomainModel =
  GuidePostD_id :: string
  GuidePostD_title :: string
  GuidePostD_description :: string
  GuidePostD_stars :: number
  GuidePostD_created_at :: string
  GuidePostD_updated_at :: string

record GuidePostViewModel =
  GuidePostV_id :: string
  GuidePostV_title :: string
  GuidePostV_description :: string
  GuidePostV_stars :: number
  GuidePostV_createdAt :: Date
  GuidePostV_updatedAt :: Date

definition GuidePostMapper_toViewModel ::
  "host \<Rightarrow> GuidePostDomainModel \<Rightarrow> error + GuidePostViewModel" where
  "GuidePostMapper_toViewModel h domain =
     Inr \<lparr> GuidePostV_id = GuidePostD_id domain,
           GuidePostV_title = GuidePostD_title domain,
           GuidePostV_description = GuidePostD_description domain,
           GuidePostV_stars = GuidePostD_stars domain,
           GuidePostV_createdAt = Date_new h (GuidePostD_created_at domain),
           GuidePostV_updatedAt = Date_new h (GuidePostD_updated_at domain) \<rparr>"

definition GuidePostMapper_toDomainModel :: "GuidePostViewModel \<Rightarrow> error + GuidePostDomainModel" where
  "GuidePostMapper_toDomainModel view =
     (case Date_toISOString (GuidePostV_createdAt view) of
        Inl e \<Rightarrow> Inl e
      | Inr c \<Rightarrow>
          (case Date_toISOString (GuidePostV_updatedAt view) of
             Inl e \<Rightarrow> Inl e
           | Inr u \<Rightarrow>
               Inr \<lparr> GuidePostD_id = GuidePostV_id view,
                     GuidePostD_title = GuidePostV_title view,
                     GuidePostD_description = GuidePostV_description view,
                     GuidePostD_stars = GuidePostV_stars view,
                     GuidePostD_created_at = c,
                     GuidePostD_updated_at = u \<rparr>))"

section \<open>Hosts and the records of the documentation's usage examples\<close>

text \<open>A host whose local time zone is UTC and whose engine recognises no date format but
  the Date Time String Format, and one that differs only in its time zone, UTC+01:00.\<close>

definition utc_host :: host where
  "utc_host = \<lparr> LocalTZA = (\<lambda>t. 0), legacyParse = (\<lambda>s. None) \<rparr>"

definition cet_host :: host where
  "cet_host = \<lparr> LocalTZA = (\<lambda>t. 3600000), legacyParse = (\<lambda>s. None) \<rparr>"

definition usage_todo :: TodoDomainModel where
  "usage_todo =
     \<lparr> TodoD_id = ''t1'', TodoD_text = ''Buy milk'', TodoD_completed = False,
       TodoD_due_date = Some ''2025-06-20T12:00:00Z'' \<rparr>"

definition usage_post :: PostDomainModel where
  "usage_post =
     \<lparr> PostD_id = ''1'', PostD_title = ''Hello World'', PostD_content = ''Welcome to the blog!'',
       PostD_author = \<lparr> AuthorD_id = ''a1'', AuthorD_name = ''Alice'',
                        AuthorD_avatar_url = ''/alice.png'' \<rparr>,
       PostD_published_at = ''2025-06-01T10:00:00Z'' \<rparr>"

definition usage_message :: MessageDomainModel where
  "usage_message =
     \<lparr> MessageD_id = ''m1'', MessageD_sender = ''Bob'', MessageD_text = ''See attached'',
       MessageD_sent_at = ''2025-06-15T12:00:00Z'',
       MessageD_attachment =
         Present \<lparr> AttachmentD_id = ''a1'', AttachmentD_url = ''/img.png'',
                   AttachmentD_type = Image \<rparr> \<rparr>"

definition usage_project :: ProjectDomainModel where
  "usage_project =
     \<lparr> ProjectD_id = ''p1'', ProjectD_name = ''Website Redesign'',
       ProjectD_tasks =
         [\<lparr> TaskD_id = ''t1'', TaskD_title = ''Design homepage'', TaskD_completed = False,
            TaskD_assignee = \<lparr> AssigneeD_id = ''u1'', AssigneeD_name = ''Alice'' \<rparr> \<rparr>] \<rparr>"

definition usage_user :: UserDomainModel where
  "usage_user =
     \<lparr> UserD_id = ''u1'', UserD_email = ''user@example.com'', UserD_display_name = ''Jane Doe'',
       UserD_roles = [\<lparr> RoleD_id = ''r1'', RoleD_name = ''admin'' \<rparr>,
                      \<lparr> RoleD_id = ''r2'', RoleD_name = ''editor'' \<rparr>] \<rparr>"

definition usage_product :: ProductDomainModel where
  "usage_product =
     \<lparr> ProductD_id = ''p1'', ProductD_name = ''T-Shirt'', ProductD_price_cents = Finite 1999,
       ProductD_category = \<lparr> CategoryD_id = ''c1'', CategoryD_name = ''Apparel'' \<rparr>,
       ProductD_image_url = ''/tshirt.png'' \<rparr>"

definition test_post :: GuidePostDomainModel where
  "test_post =
     \<lparr> GuidePostD_id = ''1'', GuidePostD_title = ''Test Post'',
       GuidePostD_description = ''This is a test post.'', GuidePostD_stars = Finite 5,
       GuidePostD_created_at = ''2025-01-01T10:00:00Z'',
       GuidePostD_updated_at = ''2025-01-02T10:00:00Z'' \<rparr>"

definition big_product :: ProductDomainModel where
  "big_product =
     \<lparr> ProductD_id = ''p1'', ProductD_name = ''T-Shirt'',
       ProductD_price_cents = Finite 4263461725460945,
       ProductD_category = \<lparr> CategoryD_id = ''c1'', CategoryD_name = ''Apparel'' \<rparr>,
       ProductD_image_url = ''/tshirt.png'' \<rparr>"

definition usage_product_view :: ProductViewModel where
  "usage_product_view =
     \<lparr> ProductV_id = ''p1'', ProductV_name = ''T-Shirt'', ProductV_price = ''$19.99'',
       ProductV_category = \<lparr> CategoryV_id = ''c1'', CategoryV_label = ''Apparel'' \<rparr>,
       ProductV_imageUrl = ''/tshirt.png'' \<rparr>"


section \<open>Properties of the built-ins\<close>

lemma Array_map_length:
  "Array_map f xs = Inr ys \<Longrightarrow> length ys = length xs"
  by (induction xs arbitrary: ys) (auto split: sum.splits)

lemma Array_map_nth:
  "Array_map f xs = Inr ys \<Longrightarrow> i < length xs \<Longrightarrow> f (xs ! i) = Inr (ys ! i)"
proof (induction xs arbitrary: ys i)
  case Nil
  then show ?case by simp
next
  case (Cons x xs)
  then show ?case
    by (cases i) (auto split: sum.splits)
qed

lemma Array_map_total:
  "(\<And>x. x \<in> set xs \<Longrightarrow> \<exists>y. f x = Inr y) \<Longrightarrow> \<exists>ys. Array_map f xs = Inr ys"
proof (induction xs)
  case Nil
  then show ?case by simp
next
  case (Cons x xs)
  then obtain y where y: "f x = Inr y" by force
  from Cons obtain ys where "Array_map f xs = Inr ys" by force
  with y show ?case by simp
qed

lemma Date_new_usage_todo: "Date_new h ''2025-06-20T12:00:00Z'' = DateValue 1750420800000"
  by code_simp

lemma Date_toISOString_usage_todo:
  "Date_toISOString (DateValue 1750420800000) = Inr ''2025-06-20T12:00:00.000Z''"
  by code_simp

lemma Date_new_usage_post: "Date_new h ''2025-06-01T10:00:00Z'' = DateValue 1748772000000"
  by code_simp

lemma Date_toISOString_usage_post:
  "Date_toISOString (DateValue 1748772000000) = Inr ''2025-06-01T10:00:00.000Z''"
  by code_simp

subsection \<open>Years, months and days\<close>

lemma div_succ:
  fixes a k :: int
  assumes k: "0 < k"
  shows "(a + 1) div k = a div k + (if (a + 1) mod k = 0 then 1 else 0)"
proof -
  define q where "q = a div k"
  define r where "r = a mod k"
  have a: "a = k * q + r" and r0: "0 \<le> r" and rk: "r < k"
    using k by (simp_all add: q_def r_def)
  show ?thesis
  proof (cases "r + 1 = k")
    case True
    then have "a + 1 = k * (q + 1) + 0" using a by (simp add: algebra_simps)
    then have "(a + 1) div k = q + 1" "(a + 1) mod k = 0"
      using k int_div_pos_eq [of "a + 1" k "q + 1" 0] int_mod_pos_eq [of "a + 1" k "q + 1" 0]
      by simp_all
    then show ?thesis by (simp add: q_def)
  next
    case False
    then have lt: "r + 1 < k" using rk by simp
    have "a + 1 = k * q + (r + 1)" using a by simp
    then have "(a + 1) div k = q" "(a + 1) mod k = r + 1"
      using lt r0 int_div_pos_eq [of "a + 1" k q "r + 1"] int_mod_pos_eq [of "a + 1" k q "r + 1"]
      by simp_all
    then show ?thesis using r0 by (simp add: q_def)
  qed
qed

lemma mod_shift_4: "(y - 1968) mod 4 = y mod (4::int)"
proof -
  have "y - 1968 = y + 4 * (- 492)" by simp
  then show ?thesis by (metis mod_mult_self2)
qed

lemma mod_shift_100: "(y - 1900) mod 100 = y mod (100::int)"
proof -
  have "y - 1900 = y + 100 * (- 19)" by simp
  then show ?thesis by (metis mod_mult_self2)
qed

lemma mod_shift_400: "(y - 1600) mod 400 = y mod (400::int)"
proof -
  have "y - 1600 = y + 400 * (- 4)" by simp
  then show ?thesis by (metis mod_mult_self2)
qed

lemma mod_400_100: "y mod (400::int) = 0 \<Longrightarrow> y mod 100 = 0"
proof -
  assume "y mod 400 = 0"
  then have "400 dvd y" by (simp add: mod_eq_0_iff_dvd)
  moreover have "(100::int) dvd 400" by simp
  ultimately have "100 dvd y" by (rule dvd_trans [rotated])
  then show ?thesis by (simp add: mod_eq_0_iff_dvd)
qed

lemma mod_100_4: "y mod (100::int) = 0 \<Longrightarrow> y mod 4 = 0"
proof -
  assume "y mod 100 = 0"
  then have "100 dvd y" by (simp add: mod_eq_0_iff_dvd)
  moreover have "(4::int) dvd 100" by simp
  ultimately have "4 dvd y" by (rule dvd_trans [rotated])
  then show ?thesis by (simp add: mod_eq_0_iff_dvd)
qed

lemma DayFromYear_Suc: "DayFromYear (y + 1) = DayFromYear y + DaysInYear y"
proof -
  have a: "(y + 1 - 1969) div 4 = (y - 1969) div 4 + (if y mod 4 = 0 then 1 else 0)"
    using div_succ [of 4 "y - 1969"] mod_shift_4 [of y] by (simp add: algebra_simps)
  have b: "(y + 1 - 1901) div 100 = (y - 1901) div 100 + (if y mod 100 = 0 then 1 else 0)"
    using div_succ [of 100 "y - 1901"] mod_shift_100 [of y] by (simp add: algebra_simps)
  have c: "(y + 1 - 1601) div 400 = (y - 1601) div 400 + (if y mod 400 = 0 then 1 else 0)"
    using div_succ [of 400 "y - 1601"] mod_shift_400 [of y] by (simp add: algebra_simps)
  have l: "leap_year y = (y mod 4 = 0 \<and> (y mod 100 \<noteq> 0 \<or> y mod 400 = 0))"
    by (simp add: leap_year_def)
  consider "y mod 400 = 0" | "y mod 400 \<noteq> 0" "y mod 100 = 0"
    | "y mod 100 \<noteq> 0" "y mod 4 = 0" | "y mod 4 \<noteq> 0"
    by auto
  then show ?thesis
  proof cases
    case 1
    then have "y mod 100 = 0" "y mod 4 = 0" using mod_400_100 [of y] mod_100_4 [of y] by auto
    with 1 show ?thesis unfolding DayFromYear_def DaysInYear_def l a b c by simp
  next
    case 2
    then have "y mod 4 = 0" using mod_100_4 [of y] by auto
    with 2 show ?thesis unfolding DayFromYear_def DaysInYear_def l a b c by simp
  next
    case 3
    then have "y mod 400 \<noteq> 0" using mod_400_100 [of y] by auto
    with 3 show ?thesis unfolding DayFromYear_def DaysInYear_def l a b c by simp
  next
    case 4
    then have "y mod 100 \<noteq> 0" "y mod 400 \<noteq> 0" using mod_400_100 [of y] mod_100_4 [of y] by auto
    with 4 show ?thesis unfolding DayFromYear_def DaysInYear_def l a b c by simp
  qed
qed


lemma div_bounds:
  fixes a k :: int
  assumes "0 < k"
  shows "k * (a div k) \<le> a" and "a - k < k * (a div k)"
proof -
  have "a = k * (a div k) + a mod k" by simp
  moreover have "0 \<le> a mod k" "a mod k < k" using assms by simp_all
  ultimately show "k * (a div k) \<le> a" and "a - k < k * (a div k)" by linarith+
qed

lemma DayFromYear_bounds:
  "146097 * y - 287811596 \<le> 400 * DayFromYear y"
  "400 * DayFromYear y \<le> 146097 * y - 287810501"
proof -
  define A where "A = (y - 1969) div 4"
  define B where "B = (y - 1901) div 100"
  define C where "C = (y - 1601) div 400"
  have a: "4 * A \<le> y - 1969" "y - 1969 - 4 < 4 * A"
    using div_bounds [of 4 "y - 1969"] by (simp_all add: A_def)
  have b: "100 * B \<le> y - 1901" "y - 1901 - 100 < 100 * B"
    using div_bounds [of 100 "y - 1901"] by (simp_all add: B_def)
  have c: "400 * C \<le> y - 1601" "y - 1601 - 400 < 400 * C"
    using div_bounds [of 400 "y - 1601"] by (simp_all add: C_def)
  have D: "400 * DayFromYear y = 146000 * y - 287620000 + 400 * A - 400 * B + 400 * C"
    by (simp add: DayFromYear_def A_def B_def C_def algebra_simps)
  show "146097 * y - 287811596 \<le> 400 * DayFromYear y"
    unfolding D using a b c by linarith
  show "400 * DayFromYear y \<le> 146097 * y - 287810501"
    unfolding D using a b c by linarith
qed

lemma YearFromDay_bounds:
  "DayFromYear (YearFromDay d) \<le> d" "d < DayFromYear (YearFromDay d + 1)"
proof -
  define y where "y = 1970 + (400 * d) div 146097"
  define q where "q = (400 * d) div 146097"
  have e: "146097 * q \<le> 400 * d" "400 * d - 146097 < 146097 * q"
    using div_bounds [of 146097 "400 * d"] by (simp_all add: q_def)
  have yq: "y = 1970 + q" by (simp add: y_def q_def)
  have Y: "YearFromDay d =
      (if DayFromYear (y + 1) \<le> d then y + 1 else if d < DayFromYear y then y - 1 else y)"
    by (simp add: YearFromDay_def y_def Let_def)
  have "146097 * y + 292194 - 287811596 \<le> 400 * DayFromYear (y + 2)"
    using DayFromYear_bounds(1) [of "y + 2"] by (simp add: algebra_simps)
  then have up: "d < DayFromYear (y + 2)"
    using e yq by linarith
  have "400 * DayFromYear (y - 1) \<le> 146097 * y - 146097 - 287810501"
    using DayFromYear_bounds(2) [of "y - 1"] by (simp add: algebra_simps)
  then have lo: "DayFromYear (y - 1) \<le> d"
    using e yq by linarith
  show "DayFromYear (YearFromDay d) \<le> d"
    using lo by (simp add: Y)
  have "d < DayFromYear (2 + y)"
    using up by (simp only: add.commute [of 2 y])
  then show "d < DayFromYear (YearFromDay d + 1)"
    by (simp add: Y)
qed

lemma DayFromYear_add: "DayFromYear y \<le> DayFromYear (y + int k)"
proof (induction k)
  case 0
  then show ?case by simp
next
  case (Suc k)
  have "DayFromYear (y + int (Suc k)) = DayFromYear (y + int k) + DaysInYear (y + int k)"
    using DayFromYear_Suc [of "y + int k"] by (simp add: algebra_simps)
  moreover have "0 \<le> DaysInYear (y + int k)" by (simp add: DaysInYear_def)
  ultimately show ?case using Suc by linarith
qed

lemma DayFromYear_mono: "y \<le> y' \<Longrightarrow> DayFromYear y \<le> DayFromYear y'"
  using DayFromYear_add [of y "nat (y' - y)"] by simp

text \<open>\<open>YearFromDay d\<close> is the largest \<open>y\<close> with \<open>DayFromYear y \<le> d\<close>, as ECMAScript
  defines the year of a time value.\<close>

lemma YearFromDay_greatest: "DayFromYear y \<le> d \<Longrightarrow> y \<le> YearFromDay d"
proof (rule ccontr)
  assume a: "DayFromYear y \<le> d" and "\<not> y \<le> YearFromDay d"
  then have "YearFromDay d + 1 \<le> y" by simp
  then have "DayFromYear (YearFromDay d + 1) \<le> DayFromYear y" by (rule DayFromYear_mono)
  then show False using a YearFromDay_bounds(2) [of d] by linarith
qed

lemma DayWithinYear_bounds:
  "0 \<le> DayWithinYear t" "DayWithinYear t < DaysInYear (YearFromTime t)"
  using YearFromDay_bounds [of "Day t"] DayFromYear_Suc [of "YearFromTime t"]
  by (simp_all add: DayWithinYear_def YearFromTime_def)

lemma month_start_values:
  "month_start lp 0 = 0" "month_start lp 1 = 31"
  "month_start lp 2 = (if lp then 60 else 59)" "month_start lp 3 = (if lp then 91 else 90)"
  "month_start lp 4 = (if lp then 121 else 120)" "month_start lp 5 = (if lp then 152 else 151)"
  "month_start lp 6 = (if lp then 182 else 181)" "month_start lp 7 = (if lp then 213 else 212)"
  "month_start lp 8 = (if lp then 244 else 243)" "month_start lp 9 = (if lp then 274 else 273)"
  "month_start lp 10 = (if lp then 305 else 304)" "month_start lp 11 = (if lp then 335 else 334)"
  "month_start lp 12 = (if lp then 366 else 365)"
  by (simp_all add: month_start_def)

lemma month_start_Suc_values:
  "month_start lp (Suc 0) = 31"
  "month_start lp (Suc (Suc 0)) = (if lp then 60 else 59)"
  "month_start lp (Suc (Suc (Suc 0))) = (if lp then 91 else 90)"
  "month_start lp (Suc (Suc (Suc (Suc 0)))) = (if lp then 121 else 120)"
  "month_start lp (Suc (Suc (Suc (Suc (Suc 0))))) = (if lp then 152 else 151)"
  "month_start lp (Suc (Suc (Suc (Suc (Suc (Suc 0)))))) = (if lp then 182 else 181)"
  "month_start lp (Suc (Suc (Suc (Suc (Suc (Suc (Suc 0))))))) = (if lp then 213 else 212)"
  "month_start lp (Suc (Suc (Suc (Suc (Suc (Suc (Suc (Suc 0)))))))) = (if lp then 244 else 243)"
  "month_start lp (Suc (Suc (Suc (Suc (Suc (Suc (Suc (Suc (Suc 0))))))))) = (if lp then 274 else 273)"
  "month_start lp (Suc (Suc (Suc (Suc (Suc (Suc (Suc (Suc (Suc (Suc 0)))))))))) = (if lp then 305 else 304)"
  "month_start lp (Suc (Suc (Suc (Suc (Suc (Suc (Suc (Suc (Suc (Suc (Suc 0))))))))))) = (if lp then 335 else 334)"
  "month_start lp (Suc (Suc (Suc (Suc (Suc (Suc (Suc (Suc (Suc (Suc (Suc (Suc 0)))))))))))) = (if lp then 366 else 365)"
  by (simp_all add: month_start_def)

lemma upt_1_12: "[1..<12] = [1, 2, 3, 4, 5, 6, 7, 8, 9, 10, 11]"
  by (simp add: upt_rec)

text \<open>The month of a day within the year: the month starts on or before the day and the
  next month after it.\<close>

lemma month_of_day:
  fixes k :: int
  assumes "0 \<le> k" "k < (if lp then 366 else 365)"
  defines "m \<equiv> length (filter (\<lambda>m. month_start lp m \<le> k) [1..<12])"
  shows "m < 12 \<and> month_start lp m \<le> k \<and> k < month_start lp (Suc m)"
proof (cases lp)
  case True
  consider "k < 31" | "31 \<le> k" "k < 60" | "60 \<le> k" "k < 91" | "91 \<le> k" "k < 121"
    | "121 \<le> k" "k < 152" | "152 \<le> k" "k < 182" | "182 \<le> k" "k < 213"
    | "213 \<le> k" "k < 244" | "244 \<le> k" "k < 274" | "274 \<le> k" "k < 305"
    | "305 \<le> k" "k < 335" | "335 \<le> k"
    by linarith
  then show ?thesis
    using assms(1,2) True unfolding m_def upt_1_12
    by cases (simp_all add: month_start_values month_start_Suc_values)
next
  case False
  consider "k < 31" | "31 \<le> k" "k < 59" | "59 \<le> k" "k < 90" | "90 \<le> k" "k < 120"
    | "120 \<le> k" "k < 151" | "151 \<le> k" "k < 181" | "181 \<le> k" "k < 212"
    | "212 \<le> k" "k < 243" | "243 \<le> k" "k < 273" | "273 \<le> k" "k < 304"
    | "304 \<le> k" "k < 334" | "334 \<le> k"
    by linarith
  then show ?thesis
    using assms(1,2) False unfolding m_def upt_1_12
    by cases (simp_all add: month_start_values month_start_Suc_values)
qed

subsection \<open>Printing and reading decimal fields\<close>

lemma digit_val_digit_char: "n < 10 \<Longrightarrow> digit_val (digit_char n) = Some n"
  by (simp add: digit_val_def digit_char_def Let_def)

lemma digits_acc_append:
  "digits_acc a (xs @ ys) = (case digits_acc a xs of None \<Rightarrow> None | Some b \<Rightarrow> digits_acc b ys)"
  by (induction xs arbitrary: a) (auto split: option.splits)

lemma length_pad: "length (pad k n) = k"
  by (induction k arbitrary: n) simp_all

lemma digits_acc_pad: "n < 10 ^ k \<Longrightarrow> digits_acc a (pad k n) = Some (a * 10 ^ k + n)"
proof (induction k arbitrary: n)
  case 0
  then show ?case by simp
next
  case (Suc k)
  then have "n div 10 < 10 ^ k" by (simp add: less_mult_imp_div_less mult.commute)
  then have "digits_acc a (pad k (n div 10)) = Some (a * 10 ^ k + n div 10)"
    by (rule Suc.IH)
  then show ?case
    by (simp add: digits_acc_append digit_val_digit_char algebra_simps)
qed

lemma take_digits_pad:
  assumes "0 < k" "n < 10 ^ k"
  shows "take_digits k (pad k n @ r) = Some (n, r)"
proof -
  have "pad k n \<noteq> []" using assms(1) length_pad [of k n] by auto
  then show ?thesis
    using assms(2) by (simp add: take_digits_def length_pad digits_val_def digits_acc_pad)
qed

lemma pad_hd: "0 < k \<Longrightarrow> \<exists>d cs. d < 10 \<and> pad k n = digit_char d # cs"
proof (induction k arbitrary: n)
  case 0
  then show ?case by simp
next
  case (Suc k)
  show ?case
  proof (cases k)
    case 0
    then show ?thesis by (simp, intro exI [of _ "n mod 10"], simp)
  next
    case (Suc j)
    then obtain d cs where "d < 10" "pad k (n div 10) = digit_char d # cs"
      using Suc.IH [of "n div 10"] by auto
    then show ?thesis by auto
  qed
qed

lemma digit_char_not_sign: "d < 10 \<Longrightarrow> digit_char d \<noteq> CHR ''+'' \<and> digit_char d \<noteq> CHR ''-''"
proof -
  assume d: "d < 10"
  have "digit_val CHR ''+'' = None" "digit_val CHR ''-'' = None"
    by (simp_all add: digit_val_def)
  then show ?thesis using digit_val_digit_char [OF d] by auto
qed

lemma parse_year_string:
  assumes "- 999999 \<le> y" "y \<le> 999999"
  shows "parse_year (year_string y @ r) = Some (y, r)"
proof (cases "0 \<le> y \<and> y \<le> 9999")
  case True
  obtain d cs where d: "d < 10" and p: "pad 4 (nat y) = digit_char d # cs"
    using pad_hd [of 4 "nat y"] by auto
  have n: "nat y < 10 ^ 4" using True by (simp add: nat_less_iff)
  have t: "take_digits 4 (digit_char d # cs @ r) = Some (nat y, r)"
    using take_digits_pad [of 4 "nat y" r] n unfolding p by simp
  have ys: "year_string y = digit_char d # cs"
    using True p by (simp add: year_string_def)
  show ?thesis
    unfolding ys parse_year_def using digit_char_not_sign [OF d] t True by simp
next
  case False
  have n: "nat \<bar>y\<bar> < 10 ^ 6" using assms by (simp add: nat_less_iff abs_less_iff)
  have t: "take_digits 6 (pad 6 (nat \<bar>y\<bar>) @ r) = Some (nat \<bar>y\<bar>, r)"
    using take_digits_pad [of 6 "nat \<bar>y\<bar>" r] n by simp
  show ?thesis
  proof (cases "y < 0")
    case True
    have ys: "year_string y = CHR ''-'' # pad 6 (nat \<bar>y\<bar>)"
      using True by (simp add: year_string_def)
    show ?thesis unfolding ys parse_year_def using t True by simp
  next
    case nonneg: False
    have ys: "year_string y = CHR ''+'' # pad 6 (nat \<bar>y\<bar>)"
      using nonneg False by (simp add: year_string_def)
    show ?thesis unfolding ys parse_year_def using t nonneg by simp
  qed
qed

lemma time_fields:
  fixes w :: int
  assumes "0 \<le> w" "w < 86400000"
  shows "0 \<le> w div 3600000" "w div 3600000 \<le> 23"
    "w div 3600000 * 3600000 + (w div 60000) mod 60 * 60000 + (w div 1000) mod 60 * 1000
       + w mod 1000 = w"
proof -
  define h where "h = w div 3600000"
  define m where "m = w div 60000"
  define s where "s = w div 1000"
  define m' where "m' = m mod 60"
  define s' where "s' = s mod 60"
  define r where "r = w mod 1000"
  have a: "w = 1000 * s + r" by (simp add: s_def r_def)
  have "s div 60 = m"
    using zdiv_zmult2_eq [of 60 w 1000] by (simp add: s_def m_def)
  then have b: "s = 60 * m + s'"
    using mult_div_mod_eq [of 60 s] by (simp add: s'_def)
  have "m div 60 = h"
    using zdiv_zmult2_eq [of 60 w 60000] by (simp add: m_def h_def)
  then have c: "m = 60 * h + m'"
    using mult_div_mod_eq [of 60 m] by (simp add: m'_def)
  have "h * 3600000 + m' * 60000 + s' * 1000 + r = w"
    using a b c by linarith
  then show "w div 3600000 * 3600000 + (w div 60000) mod 60 * 60000 + (w div 1000) mod 60 * 1000
       + w mod 1000 = w"
    by (simp add: h_def m_def s_def m'_def s'_def r_def)
  show "0 \<le> w div 3600000" using assms by (simp add: pos_imp_zdiv_nonneg_iff)
  have "3600000 * h \<le> w" using div_bounds(1) [of 3600000 w] by (simp add: h_def)
  then have "h \<le> 23" using assms by linarith
  then show "w div 3600000 \<le> 23" by (simp add: h_def)
qed

subsection \<open>Reading what \<^verbatim>\<open>toISOString\<close> writes\<close>

lemma parse_offset_Z: "parse_offset ''Z'' = Some (OffsetMin 0)"
  by (simp add: parse_offset_def)

lemma parse_seconds_canonical:
  assumes "S < 100" "ms < 1000"
  shows "parse_seconds ('':'' @ pad 2 S @ ''.'' @ pad 3 ms @ r) = Some (S, ms, r)"
  using assms take_digits_pad [of 2 S "''.'' @ pad 3 ms @ r"] take_digits_pad [of 3 ms r]
  by (simp add: parse_seconds_def expect_def)

lemma parse_time_canonical:
  assumes "H \<le> 23" "Mi \<le> 59" "S \<le> 59" "ms \<le> 999"
  shows "parse_time (pad 2 H @ '':'' @ pad 2 Mi @ '':'' @ pad 2 S @ ''.'' @ pad 3 ms @ ''Z'')
         = Some (MakeTime H Mi S ms, OffsetMin 0)"
  using assms
    take_digits_pad [of 2 H "'':'' @ pad 2 Mi @ '':'' @ pad 2 S @ ''.'' @ pad 3 ms @ ''Z''"]
    take_digits_pad [of 2 Mi "'':'' @ pad 2 S @ ''.'' @ pad 3 ms @ ''Z''"]
    parse_seconds_canonical [of S ms "''Z''"]
  by (simp add: parse_time_def expect_def parse_offset_Z)

lemma parse_date_canonical:
  assumes "- 999999 \<le> Y" "Y \<le> 999999" "M < 100" "D < 100"
  shows "parse_date (year_string Y @ ''-'' @ pad 2 M @ ''-'' @ pad 2 D @ r) = Some (Y, M, D, r)"
  using assms
    parse_year_string [of Y "''-'' @ pad 2 M @ ''-'' @ pad 2 D @ r"]
    take_digits_pad [of 2 M "''-'' @ pad 2 D @ r"]
    take_digits_pad [of 2 D r]
  by (simp add: parse_date_def expect_def)

lemma DaysInMonth_le: "M < 12 \<Longrightarrow> DaysInMonth Y M \<le> 31"
proof -
  assume "M < 12"
  then have "M = 0 \<or> M = 1 \<or> M = 2 \<or> M = 3 \<or> M = 4 \<or> M = 5 \<or> M = 6 \<or> M = 7
    \<or> M = 8 \<or> M = 9 \<or> M = 10 \<or> M = 11"
    by presburger
  then show ?thesis
    by (elim disjE) (simp_all add: DaysInMonth_def month_start_values month_start_Suc_values)
qed

lemma parse_iso_canonical:
  assumes "- 999999 \<le> Y" "Y \<le> 999999" "M < 12" "1 \<le> D" "int D \<le> DaysInMonth Y M"
    "H \<le> 23" "Mi \<le> 59" "S \<le> 59" "ms \<le> 999"
  shows "parse_iso (year_string Y @ ''-'' @ pad 2 (M + 1) @ ''-'' @ pad 2 D @ ''T'' @ pad 2 H
            @ '':'' @ pad 2 Mi @ '':'' @ pad 2 S @ ''.'' @ pad 3 ms @ ''Z'')
         = Some (MakeDate (MakeDay Y M D) (MakeTime H Mi S ms), Some (OffsetMin 0))"
proof -
  have D: "D < 100"
    using DaysInMonth_le [OF assms(3), of Y] assms(5) by linarith
  have M: "M + 1 < 100" using assms(3) by simp
  have d: "parse_date (year_string Y @ ''-'' @ pad 2 (M + 1) @ ''-'' @ pad 2 D @
             (''T'' @ pad 2 H @ '':'' @ pad 2 Mi @ '':'' @ pad 2 S @ ''.'' @ pad 3 ms @ ''Z''))
           = Some (Y, M + 1, D,
               ''T'' @ pad 2 H @ '':'' @ pad 2 Mi @ '':'' @ pad 2 S @ ''.'' @ pad 3 ms @ ''Z'')"
    using parse_date_canonical [OF assms(1,2) M D] by blast
  have t: "parse_time (pad 2 H @ '':'' @ pad 2 Mi @ '':'' @ pad 2 S @ ''.'' @ pad 3 ms @ ''Z'')
         = Some (MakeTime H Mi S ms, OffsetMin 0)"
    using parse_time_canonical [OF assms(6-9)] .
  show ?thesis
    unfolding parse_iso_def using d t assms(3,4,5)
    by (simp add: expect_def)
qed

lemma YearFromTime_range:
  assumes "\<bar>t\<bar> \<le> 8640000000000000"
  shows "- 999999 \<le> YearFromTime t" "YearFromTime t \<le> 999999"
proof -
  define d where "d = Day t"
  define Y where "Y = YearFromDay d"
  have "86400000 * d \<le> t" "t - 86400000 < 86400000 * d"
    using div_bounds [of 86400000 t] by (simp_all add: d_def Day_def msPerDay_def)
  then have d: "- 100000001 < d" "d \<le> 100000000" using assms by linarith+
  have 1: "146097 * Y - 287811596 \<le> 400 * DayFromYear Y"
    using DayFromYear_bounds(1) [of Y] .
  have 2: "400 * DayFromYear (Y + 1) \<le> 146097 * Y + 146097 - 287810501"
    using DayFromYear_bounds(2) [of "Y + 1"] by (simp add: algebra_simps)
  have 3: "DayFromYear Y \<le> d" "d < DayFromYear (Y + 1)"
    using YearFromDay_bounds [of d] by (simp_all add: Y_def)
  have "- 999999 \<le> Y" using 2 3 d by linarith
  moreover have "Y \<le> 999999" using 1 3 d by linarith
  ultimately show "- 999999 \<le> YearFromTime t" "YearFromTime t \<le> 999999"
    by (simp_all add: YearFromTime_def Y_def d_def)
qed

lemma date_fields:
  "MonthFromTime t < 12" "1 \<le> DateFromTime t"
  "DateFromTime t \<le> DaysInMonth (YearFromTime t) (MonthFromTime t)"
  "MakeDay (YearFromTime t) (MonthFromTime t) (nat (DateFromTime t)) = Day t"
proof -
  define lp where "lp = leap_year (YearFromTime t)"
  have k: "0 \<le> DayWithinYear t" "DayWithinYear t < (if lp then 366 else 365)"
    using DayWithinYear_bounds [of t] by (simp_all add: DaysInYear_def lp_def)
  have m: "MonthFromTime t < 12 \<and> month_start lp (MonthFromTime t) \<le> DayWithinYear t
      \<and> DayWithinYear t < month_start lp (Suc (MonthFromTime t))"
    using month_of_day [OF k] by (simp add: MonthFromTime_def lp_def)
  show M: "MonthFromTime t < 12" using m by simp
  show D: "1 \<le> DateFromTime t" using m by (simp add: DateFromTime_def lp_def)
  show "DateFromTime t \<le> DaysInMonth (YearFromTime t) (MonthFromTime t)"
    using m by (simp add: DateFromTime_def DaysInMonth_def lp_def)
  show "MakeDay (YearFromTime t) (MonthFromTime t) (nat (DateFromTime t)) = Day t"
    using M D by (simp add: MakeDay_def DateFromTime_def DayWithinYear_def)
qed

lemma time_of_day_fields:
  "0 \<le> HourFromTime t" "HourFromTime t \<le> 23"
  "0 \<le> MinFromTime t" "MinFromTime t \<le> 59"
  "0 \<le> SecFromTime t" "SecFromTime t \<le> 59"
  "0 \<le> msFromTime t" "msFromTime t \<le> 999"
  "MakeTime (nat (HourFromTime t)) (nat (MinFromTime t)) (nat (SecFromTime t))
     (nat (msFromTime t)) = TimeWithinDay t"
proof -
  have w: "0 \<le> TimeWithinDay t" "TimeWithinDay t < 86400000"
    unfolding TimeWithinDay_def msPerDay_def
    by (rule pos_mod_sign, simp, rule pos_mod_bound, simp)
  show h: "0 \<le> HourFromTime t" "HourFromTime t \<le> 23"
    unfolding HourFromTime_def by (rule time_fields(1) [OF w], rule time_fields(2) [OF w])
  have m0: "0 \<le> MinFromTime t" and m1: "MinFromTime t < 60"
    unfolding MinFromTime_def by (rule pos_mod_sign, simp, rule pos_mod_bound, simp)
  have s0: "0 \<le> SecFromTime t" and s1: "SecFromTime t < 60"
    unfolding SecFromTime_def by (rule pos_mod_sign, simp, rule pos_mod_bound, simp)
  have r0: "0 \<le> msFromTime t" and r1: "msFromTime t < 1000"
    unfolding msFromTime_def by (rule pos_mod_sign, simp, rule pos_mod_bound, simp)
  show "0 \<le> MinFromTime t" "MinFromTime t \<le> 59" using m0 m1 by linarith+
  show "0 \<le> SecFromTime t" "SecFromTime t \<le> 59" using s0 s1 by linarith+
  show "0 \<le> msFromTime t" "msFromTime t \<le> 999" using r0 r1 by linarith+
  have e: "HourFromTime t * 3600000 + MinFromTime t * 60000 + SecFromTime t * 1000
      + msFromTime t = TimeWithinDay t"
    unfolding HourFromTime_def MinFromTime_def SecFromTime_def msFromTime_def
    by (rule time_fields(3) [OF w])
  have n: "int (nat (HourFromTime t)) = HourFromTime t" "int (nat (MinFromTime t)) = MinFromTime t"
    "int (nat (SecFromTime t)) = SecFromTime t" "int (nat (msFromTime t)) = msFromTime t"
    using h(1) m0 s0 r0 by (simp_all only: nat_0_le)
  show "MakeTime (nat (HourFromTime t)) (nat (MinFromTime t)) (nat (SecFromTime t))
     (nat (msFromTime t)) = TimeWithinDay t"
    unfolding MakeTime_def n by (rule e)
qed

text \<open>What \<^verbatim>\<open>toISOString\<close> writes for a time value in the range of \<^verbatim>\<open>Date\<close> is an
  instance of the Date Time String Format, with offset \<^verbatim>\<open>Z\<close>, that denotes the same
  time value.\<close>

lemma parse_iso_toISOString:
  assumes "\<bar>t\<bar> \<le> 8640000000000000"
  shows "\<exists>s. Date_toISOString (DateValue t) = Inr s \<and> parse_iso s = Some (t, Some (OffsetMin 0))"
proof -
  have D: "int (nat (DateFromTime t)) \<le> DaysInMonth (YearFromTime t) (MonthFromTime t)"
    "1 \<le> nat (DateFromTime t)"
    using date_fields(2,3) [of t] by simp_all
  have T: "nat (HourFromTime t) \<le> 23" "nat (MinFromTime t) \<le> 59" "nat (SecFromTime t) \<le> 59"
    "nat (msFromTime t) \<le> 999"
    using time_of_day_fields(2,4,6,8) [of t] by (simp_all only: nat_le_iff of_nat_numeral)
  have "MakeDate (Day t) (TimeWithinDay t) = t"
    by (simp add: MakeDate_def Day_def TimeWithinDay_def)
  then show ?thesis
    using parse_iso_canonical [OF YearFromTime_range [OF assms] date_fields(1) D(2) D(1) T]
      date_fields(4) [of t] time_of_day_fields(9) [of t]
    by (simp add: Date_toISOString_def)
qed

lemma Date_new_toISOString:
  assumes "\<bar>t\<bar> \<le> 8640000000000000"
  shows "\<exists>s. Date_toISOString (DateValue t) = Inr s \<and> s \<noteq> [] \<and> Date_new h s = DateValue t"
proof -
  obtain s where s: "Date_toISOString (DateValue t) = Inr s"
    "parse_iso s = Some (t, Some (OffsetMin 0))"
    using parse_iso_toISOString [OF assms] by blast
  have "s \<noteq> []" using s(1) by (auto simp add: Date_toISOString_def)
  moreover have "Date_new h s = DateValue t"
    using s(2) assms by (simp add: Date_new_def Date_parse_def TimeClip_def)
  ultimately show ?thesis using s(1) by blast
qed

subsection \<open>Rounding to a double\<close>

lemma round_half_even_error: "\<bar>of_int (round_half_even s) - s\<bar> \<le> 1 / 2"
proof -
  define f where "f = \<lfloor>s\<rfloor>"
  define r where "r = s - of_int f"
  have r: "0 \<le> r" "r < 1" unfolding r_def f_def by linarith+
  have s: "s = of_int f + r" by (simp add: r_def)
  have "round_half_even s =
      (if r < 1 / 2 then f else if 1 / 2 < r then f + 1 else if even f then f else f + 1)"
    by (simp add: round_half_even_def Let_def f_def r_def)
  then show ?thesis using r unfolding s by (auto simp add: abs_if)
qed

lemma two_powi_pos: "0 < (2::rat) powi k"
  by simp

lemma floor_log2_bounds:
  assumes "0 < q"
  shows "2 powi (floor_log2 q) \<le> q" "q < 2 powi (floor_log2 q + 1)"
proof -
  define a where "a = fst (quotient_of q)"
  define b where "b = snd (quotient_of q)"
  have b: "0 < b" by (simp add: b_def quotient_of_denom_pos')
  have q: "q = of_int a / of_int b"
    using quotient_of_div [of q a b] by (simp add: a_def b_def)
  have a: "0 < a"
    using assms b unfolding q by (simp add: zero_less_divide_iff)
  define la where "la = bitlen a"
  define lb where "lb = bitlen b"
  have la: "1 \<le> la" and lb: "1 \<le> lb"
    using a b bitlen_eq_zero_iff [of a] bitlen_eq_zero_iff [of b] bitlen_nonneg [of a]
      bitlen_nonneg [of b]
    by (simp_all add: la_def lb_def)
  have "2 ^ nat (la - 1) \<le> a" "a < 2 ^ nat la" "2 ^ nat (lb - 1) \<le> b" "b < 2 ^ nat lb"
    using bitlen_bounds [OF a] bitlen_bounds [OF b] by (simp_all add: la_def lb_def)
  then have A: "(2::rat) ^ nat (la - 1) \<le> of_int a" "of_int a < (2::rat) ^ nat la"
    and B: "(2::rat) ^ nat (lb - 1) \<le> of_int b" "of_int b < (2::rat) ^ nat lb"
    by (metis of_int_le_iff of_int_numeral of_int_power, metis of_int_less_iff of_int_numeral of_int_power,
        metis of_int_le_iff of_int_numeral of_int_power, metis of_int_less_iff of_int_numeral of_int_power)
  have pa: "(2::rat) ^ nat (la - 1) = 2 powi (la - 1)" "(2::rat) ^ nat la = 2 powi la"
    using la by (simp_all add: power_int_def)
  have pb: "(2::rat) ^ nat (lb - 1) = 2 powi (lb - 1)" "(2::rat) ^ nat lb = 2 powi lb"
    using lb by (simp_all add: power_int_def)
  define d where "d = la - lb"
  have bpos: "0 < (of_int b :: rat)" using b by simp
  have lo: "2 powi (d - 1) < q"
  proof -
    have "(2::rat) powi (d - 1) = 2 powi (la - 1) / 2 powi lb"
      by (simp add: d_def power_int_diff [symmetric] algebra_simps)
    also have "\<dots> < 2 powi (la - 1) / of_int b"
      using B(2) bpos unfolding pb by (intro divide_strict_left_mono) simp_all
    also have "\<dots> \<le> of_int a / of_int b"
      using A(1) bpos unfolding pa by (intro divide_right_mono) simp_all
    finally show ?thesis by (simp add: q)
  qed
  have hi: "q < 2 powi (d + 1)"
  proof -
    have "q = of_int a / of_int b" by (rule q)
    also have "\<dots> < 2 powi la / of_int b"
      using A(2) bpos unfolding pa by (intro divide_strict_right_mono) simp_all
    also have "\<dots> \<le> 2 powi la / 2 powi (lb - 1)"
      using B(1) bpos unfolding pb by (intro divide_left_mono) simp_all
    also have "\<dots> = 2 powi (d + 1)"
      by (simp add: d_def power_int_diff [symmetric] algebra_simps)
    finally show ?thesis .
  qed
  have F: "floor_log2 q = (if 2 powi d \<le> q then d else d - 1)"
    by (simp add: floor_log2_def Let_def d_def la_def lb_def a_def b_def)
  have mono: "(2::rat) powi d \<le> 2 powi (d + 1)"
    by (intro power_int_increasing) simp_all
  show "2 powi (floor_log2 q) \<le> q"
    using lo by (simp add: F)
  show "q < 2 powi (floor_log2 q + 1)"
    using hi mono by (auto simp add: F not_le)
qed


text \<open>Rounding a rational in the range of the normal doubles changes it by at most the
  fraction \<open>2 ^ - 53\<close> of itself, and keeps its sign.\<close>

lemma fl_error_pos:
  assumes lo: "2 powi (- 1022) \<le> q" and hi: "q < 2 powi 1023"
  shows "\<exists>r. fl q = Finite r \<and> \<bar>r - q\<bar> \<le> q / 2 ^ 53 \<and> 0 < r"
proof -
  have q: "0 < q" using lo two_powi_pos [of "- 1022"] by linarith
  define L where "L = floor_log2 q"
  have L: "2 powi L \<le> q" "q < 2 powi (L + 1)"
    using floor_log2_bounds [OF q] by (simp_all add: L_def)
  have Lge: "- 1022 \<le> L"
  proof (rule ccontr)
    assume "\<not> - 1022 \<le> L"
    then have "L + 1 \<le> - 1022" by simp
    then have "(2::rat) powi (L + 1) \<le> 2 powi (- 1022)"
      by (intro power_int_increasing) simp_all
    then show False using lo L(2) by linarith
  qed
  define e where "e = L - 52"
  have e: "max (floor_log2 \<bar>q\<bar> - 52) (- 1074) = e"
    using q Lge by (simp add: e_def L_def max_def)
  define p where "p = (2::rat) powi e"
  have p: "0 < p" by (simp add: p_def)
  have pe: "p * 2 ^ 52 = 2 powi L"
  proof -
    have "(2::rat) powi L = 2 powi (e + 52)" by (simp add: e_def)
    also have "\<dots> = 2 powi e * 2 powi 52" by (simp add: power_int_add)
    finally show ?thesis by (simp add: p_def)
  qed
  define m where "m = round_half_even (q / p)"
  define r where "r = of_int m * p"
  have me: "\<bar>of_int m - q / p\<bar> \<le> 1 / 2"
    unfolding m_def by (rule round_half_even_error)
  have "r - q = (of_int m - q / p) * p" using p by (simp add: r_def field_simps)
  then have "\<bar>r - q\<bar> = \<bar>of_int m - q / p\<bar> * p" using p by (simp add: abs_mult)
  then have err: "\<bar>r - q\<bar> \<le> p / 2"
    using me p by (simp add: mult_right_mono)
  have "p * 2 ^ 52 \<le> q" using L(1) pe by simp
  then have pq: "p / 2 \<le> q / 2 ^ 53" by (simp add: field_simps)
  have sm: "q / 2 ^ 53 < q" using q by (simp add: field_simps)
  have rpos: "0 < r" using err pq sm by linarith
  have "r < 2 * q" using err pq sm by linarith
  also have "\<dots> < 2 * 2 powi 1023" using hi by simp
  also have "\<dots> = 2 powi 1024"
    using power_int_add [of "2::rat" 1 1023] by simp
  finally have nov: "\<not> 2 powi 1024 \<le> r" by simp
  have "fl q = Finite r"
    using q nov unfolding fl_def e Let_def by (simp add: r_def m_def p_def)
  then show ?thesis using err pq rpos by auto
qed

lemma fl_zero: "fl 0 = Finite 0"
  by (simp add: fl_def)

lemma fl_minus: "fl q = Finite r \<Longrightarrow> fl (- q) = Finite (- r)"
  by (cases "q = 0"; cases "q < 0") (auto simp add: fl_def Let_def split: if_splits)

lemma two_powi_small: "(2::rat) powi (- 1022) \<le> 1 / 128"
proof -
  have "(2::rat) powi (- 1022) \<le> 2 powi (- 7)"
    by (intro power_int_increasing) simp_all
  also have "\<dots> = 1 / 128" by (simp add: power_int_minus field_simps)
  finally show ?thesis .
qed

lemma two_powi_large: "(2::rat) ^ 60 \<le> 2 powi 1023"
proof -
  have "(2::rat) powi 60 \<le> 2 powi 1023"
    by (intro power_int_increasing) simp_all
  then show ?thesis by simp
qed

text \<open>The arithmetic of the currency round trip for a positive count of cents \<open>n\<close> below
  \<open>2 ^ 51\<close>: \<open>n / 100\<close> rounds to a double \<open>x\<close> whose nearest multiple of \<open>1 / 100\<close> is
  \<open>n / 100\<close>, and \<open>x * 100\<close> rounds to a double whose nearest integer is \<open>n\<close>.\<close>

lemma cents_arithmetic:
  fixes n :: int
  assumes n: "0 < n" "n < 2 ^ 51"
  shows "\<exists>x y. fl (of_int n / 100) = Finite x \<and> 0 < x \<and> x < 10 ^ 21
           \<and> \<lfloor>x * 100 + 1 / 2\<rfloor> = n
           \<and> fl (x * 100) = Finite y \<and> \<lfloor>y + 1 / 2\<rfloor> = n \<and> \<lfloor>- y + 1 / 2\<rfloor> = - n"
proof -
  define N where "N = (of_int n :: rat)"
  have N: "1 \<le> N" "N \<le> 2251799813685247"
  proof -
    show "1 \<le> N" using n(1) by (simp add: N_def)
    have "n \<le> 2251799813685247" using n(2) by simp
    then have "(of_int n :: rat) \<le> of_int 2251799813685247" by (simp only: of_int_le_iff)
    then show "N \<le> 2251799813685247" by (simp add: N_def)
  qed
  define q where "q = N / 100"
  have "1 / 128 \<le> q" using N(1) by (simp add: q_def)
  then have q1: "2 powi (- 1022) \<le> q"
    using two_powi_small by (rule order_trans [rotated])
  have "q < 2 ^ 60" using N(2) by (simp add: q_def)
  then have q2: "q < 2 powi 1023"
    using two_powi_large by (rule less_le_trans)
  obtain x where x: "fl q = Finite x" "\<bar>x - q\<bar> \<le> q / 2 ^ 53" "0 < x"
    using fl_error_pos [OF q1 q2] by blast
  define u where "u = x * 100"
  have "\<bar>x - q\<bar> \<le> q / 9007199254740992" using x(2) by simp
  then have ul: "N - N / 9007199254740992 \<le> u" and ub: "u \<le> N + N / 9007199254740992"
    unfolding abs_le_iff u_def q_def by linarith+
  have "1 / 128 \<le> u" using ul N(1) by linarith
  then have u1: "2 powi (- 1022) \<le> u"
    using two_powi_small by (rule order_trans [rotated])
  have "u < 2 ^ 60" using ub N(2) by simp
  then have u2: "u < 2 powi 1023"
    using two_powi_large by (rule less_le_trans)
  obtain y where y: "fl u = Finite y" "\<bar>y - u\<bar> \<le> u / 2 ^ 53"
    using fl_error_pos [OF u1 u2] by blast
  have "\<bar>y - u\<bar> \<le> u / 9007199254740992" using y(2) by simp
  then have yl: "N - 1 / 2 < y" and yu: "y < N + 1 / 2"
    using ul ub N(2) unfolding abs_le_iff by linarith+
  have fx: "\<lfloor>x * 100 + 1 / 2\<rfloor> = n"
  proof (rule floor_unique)
    show "of_int n \<le> x * 100 + 1 / 2"
      using ul N(2) unfolding u_def N_def by linarith
    show "x * 100 + 1 / 2 < of_int n + 1"
      using ub N(2) unfolding u_def N_def by linarith
  qed
  have fy: "\<lfloor>y + 1 / 2\<rfloor> = n"
  proof (rule floor_unique)
    show "of_int n \<le> y + 1 / 2"
      using yl unfolding N_def by linarith
    show "y + 1 / 2 < of_int n + 1"
      using yu unfolding N_def by linarith
  qed
  have fy': "\<lfloor>- y + 1 / 2\<rfloor> = - n"
  proof (rule floor_unique)
    show "of_int (- n) \<le> - y + 1 / 2"
      using yu unfolding N_def by simp
    show "- y + 1 / 2 < of_int (- n) + 1"
      using yl unfolding N_def by simp
  qed
  have "x * 100 < 10 ^ 21 * 100" using ub N(2) unfolding u_def by simp
  then have "x < 10 ^ 21" by simp
  then show ?thesis
    using x(1,3) fx y(1) fy fy' unfolding q_def N_def u_def by blast
qed

subsection \<open>Writing and reading a price\<close>

lemma of_char_digit_char: "d < 10 \<Longrightarrow> of_char (digit_char d) = (48 + int d)"
proof -
  assume d: "d < 10"
  have "(of_char (digit_char d) :: int) = int (of_char (digit_char d))"
    by (simp only: of_nat_of_char)
  also have "\<dots> = int (48 + d)" using d by (simp add: digit_char_def)
  finally show ?thesis by simp
qed

lemma is_digit_digit_char: "d < 10 \<Longrightarrow> is_digit (digit_char d)"
  by (simp add: is_digit_def digit_val_def digit_char_def Let_def)

lemma decimal_digits: "0 \<le> n \<Longrightarrow> c \<in> set (decimal n) \<Longrightarrow> is_digit c"
proof (induction n arbitrary: c rule: decimal.induct)
  case (1 n)
  show ?case
  proof (cases "n < 10")
    case True
    then have "decimal n = [digit_char (nat n)]" by (simp add: decimal.simps [of n])
    then show ?thesis using 1(2,3) True is_digit_digit_char [of "nat n"] by auto
  next
    case False
    then have d: "decimal n = decimal (n div 10) @ [digit_char (nat (n mod 10))]"
      by (simp add: decimal.simps [of n])
    have "nat (n mod 10) < 10" by (simp add: nat_less_iff)
    then have "is_digit (digit_char (nat (n mod 10)))" by (rule is_digit_digit_char)
    moreover have "0 \<le> n div 10" using 1(2) by (simp add: pos_imp_zdiv_nonneg_iff)
    ultimately show ?thesis using 1(1) [OF False] 1(3) unfolding d by auto
  qed
qed

lemma decimal_not_Nil: "decimal n \<noteq> []"
  by (subst decimal.simps) simp

lemma foldl_decimal:
  "0 \<le> n \<Longrightarrow>
   foldl (\<lambda>a c. 10 * a + (of_char c - 48)) a (decimal n) = a * 10 ^ length (decimal n) + n"
proof (induction n arbitrary: a rule: decimal.induct)
  case (1 n)
  show ?case
  proof (cases "n < 10")
    case True
    then have "decimal n = [digit_char (nat n)]" by (simp add: decimal.simps [of n])
    then show ?thesis using 1(2) True by (simp add: of_char_digit_char nat_less_iff)
  next
    case False
    then have d: "decimal n = decimal (n div 10) @ [digit_char (nat (n mod 10))]"
      by (simp add: decimal.simps [of n])
    have m: "nat (n mod 10) < 10" by (simp add: nat_less_iff)
    have "0 \<le> n div 10" using 1(2) by (simp add: pos_imp_zdiv_nonneg_iff)
    then have "foldl (\<lambda>a c. 10 * a + (of_char c - 48)) a (decimal (n div 10))
        = a * 10 ^ length (decimal (n div 10)) + n div 10"
      by (rule 1(1) [OF False])
    then show ?thesis
      unfolding d using m by (simp add: of_char_digit_char algebra_simps)
  qed
qed

lemma digits_value_zeros_decimal:
  "0 \<le> n \<Longrightarrow> digits_value (replicate j CHR ''0'' @ decimal n) = n"
proof -
  assume n: "0 \<le> n"
  have "foldl (\<lambda>a c. 10 * a + (of_char c - 48)) (0::int) (replicate j CHR ''0'') = 0"
    by (induction j) simp_all
  then show ?thesis using foldl_decimal [OF n, of 0] by (simp add: digits_value_def)
qed

lemma Number_toFixed_2:
  assumes "\<bar>x\<bar> < 10 ^ 21"
  shows "Number_toFixed (Finite x) 2
         = Inr ((if x < 0 then ''-'' else '''') @ fixed2 \<lfloor>\<bar>x\<bar> * 100 + 1 / 2\<rfloor>)"
  using assms by (simp add: Number_toFixed_def fixed2_def Let_def)

lemma is_digit_range: "is_digit c \<Longrightarrow> 48 \<le> (of_char c :: nat) \<and> (of_char c :: nat) \<le> 57"
  by (simp add: is_digit_def digit_val_def Let_def split: if_splits)

lemma is_digit_not_special:
  assumes "is_digit c"
  shows "\<not> is_space c" "c \<noteq> CHR ''-''" "c \<noteq> CHR ''+''" "c \<noteq> CHR ''I''" "c \<noteq> CHR ''.''"
  using is_digit_range [OF assms] by (auto simp add: is_space_def)

lemma not_digit_dot: "\<not> is_digit CHR ''.''"
  by (simp add: is_digit_def digit_val_def)

lemma not_space_minus: "\<not> is_space CHR ''-''"
  by (simp add: is_space_def)

lemma exponent_part_Nil: "exponent_part [] = 0"
  by (simp add: exponent_part_def)

lemma parseFloat_digits:
  assumes ip: "ip \<noteq> []" "\<forall>c\<in>set ip. is_digit c" and fp: "\<forall>c\<in>set fp. is_digit c"
  shows "parseFloat (ip @ ''.'' @ fp) = fl (of_int (digits_value (ip @ fp)) / 10 ^ length fp)"
    and "parseFloat (''-'' @ ip @ ''.'' @ fp)
         = fl (- (of_int (digits_value (ip @ fp)) / 10 ^ length fp))"
proof -
  obtain c cs where c: "ip = c # cs" using ip(1) by (cases ip) auto
  have cd: "is_digit c" using ip(2) c by simp
  note sp = is_digit_not_special [OF cd]
  have tw: "takeWhile is_digit (ip @ CHR ''.'' # fp) = ip"
    using ip(2) not_digit_dot by simp
  have dw: "dropWhile is_digit (ip @ CHR ''.'' # fp) = CHR ''.'' # fp"
    using ip(2) not_digit_dot by simp
  have tf: "takeWhile is_digit fp = fp" using fp by simp
  have df: "dropWhile is_digit fp = []" using fp by simp
  have inf: "take 8 (ip @ CHR ''.'' # fp) \<noteq> ''Infinity''"
    using sp(4) by (simp add: c)
  have s1: "dropWhile is_space (ip @ CHR ''.'' # fp) = ip @ CHR ''.'' # fp"
    using sp(1) by (simp add: c)
  have h1: "hd (ip @ CHR ''.'' # fp) = c" by (simp add: c)
  show "parseFloat (ip @ ''.'' @ fp) = fl (of_int (digits_value (ip @ fp)) / 10 ^ length fp)"
    using sp(2,3) ip(1) inf
    by (simp add: parseFloat_def Let_def s1 h1 tw dw tf df exponent_part_Nil)
  show "parseFloat (''-'' @ ip @ ''.'' @ fp)
         = fl (- (of_int (digits_value (ip @ fp)) / 10 ^ length fp))"
    using ip(1) inf
    by (simp add: parseFloat_def Let_def not_space_minus tw dw tf df exponent_part_Nil)
qed

lemma fixed2_parts:
  assumes "0 \<le> n"
  shows "\<exists>ip fp. fixed2 n = ip @ ''.'' @ fp \<and> ip \<noteq> [] \<and> (\<forall>c\<in>set ip. is_digit c)
           \<and> (\<forall>c\<in>set fp. is_digit c) \<and> length fp = 2 \<and> digits_value (ip @ fp) = n"
proof -
  define m where "m = decimal n"
  define z where "z = (if length m \<le> 2 then replicate (3 - length m) CHR ''0'' @ m else m)"
  have z0: "is_digit CHR ''0''" by (simp add: is_digit_def digit_val_def)
  have md: "\<forall>c\<in>set m. is_digit c" using decimal_digits [OF assms] by (simp add: m_def)
  have zd: "\<forall>c\<in>set z. is_digit c" using md z0 by (auto simp add: z_def)
  have zl: "3 \<le> length z" by (simp add: z_def)
  have zv: "digits_value z = n"
    using digits_value_zeros_decimal [OF assms, of "3 - length m"]
      digits_value_zeros_decimal [OF assms, of 0]
    by (simp add: z_def m_def)
  define ip where "ip = take (length z - 2) z"
  define fp where "fp = drop (length z - 2) z"
  have "fixed2 n = ip @ ''.'' @ fp"
    by (simp add: fixed2_def Let_def ip_def fp_def z_def m_def)
  moreover have "ip \<noteq> []" using zl by (auto simp add: ip_def)
  moreover have "\<forall>c\<in>set ip. is_digit c" using zd by (auto simp add: ip_def dest: in_set_takeD)
  moreover have "\<forall>c\<in>set fp. is_digit c" using zd by (auto simp add: fp_def dest: in_set_dropD)
  moreover have "length fp = 2" using zl by (simp add: fp_def)
  moreover have "digits_value (ip @ fp) = n" using zv by (simp add: ip_def fp_def)
  ultimately show ?thesis by blast
qed

lemma parseFloat_fixed2:
  assumes "0 \<le> n"
  shows "parseFloat (fixed2 n) = fl (of_int n / 100)"
    and "parseFloat (''-'' @ fixed2 n) = fl (- (of_int n / 100))"
proof -
  obtain ip fp where f: "fixed2 n = ip @ ''.'' @ fp" "ip \<noteq> []" "\<forall>c\<in>set ip. is_digit c"
    "\<forall>c\<in>set fp. is_digit c" "length fp = 2" "digits_value (ip @ fp) = n"
    using fixed2_parts [OF assms] by blast
  show "parseFloat (fixed2 n) = fl (of_int n / 100)"
    unfolding f(1) parseFloat_digits(1) [OF f(2,3,4)] f(5,6) by simp
  show "parseFloat (''-'' @ fixed2 n) = fl (- (of_int n / 100))"
    unfolding f(1) parseFloat_digits(2) [OF f(2,3,4)] f(5,6) by simp
qed

text \<open>The price of a whole count of cents \<open>n\<close> with \<open>\<bar>n\<bar> < 2 ^ 51\<close> is written by
  \<^verbatim>\<open>toFixed(2)\<close> and read back by \<^verbatim>\<open>parseFloat\<close>, \<^verbatim>\<open>* 100\<close> and \<^verbatim>\<open>Math.round\<close>
  as \<open>n\<close>.\<close>

lemma floor_half: "\<lfloor>1 / 2 :: rat\<rfloor> = 0"
  by (rule floor_unique) simp_all

lemma price_round_trip:
  fixes n :: int
  assumes "\<bar>n\<bar> < 2 ^ 51"
  shows "\<exists>p. Number_toFixed (Number_divide (Finite (of_int n)) 100) 2 = Inr p
           \<and> Math_round (Number_multiply (parseFloat (String_remove_first CHR ''$'' (''$'' @ p))) 100)
               = Finite (of_int n)"
proof -
  consider "n = 0" | "0 < n" | "n < 0" by linarith
  then show ?thesis
  proof cases
    case 1
    have "Number_toFixed (Number_divide (Finite (of_int n)) 100) 2 = Inr (fixed2 0)"
      using Number_toFixed_2 [of 0] by (simp add: 1 Number_divide_def fl_zero floor_half)
    moreover have "parseFloat (fixed2 0) = Finite 0"
      using parseFloat_fixed2(1) [of 0] by (simp add: fl_zero)
    ultimately show ?thesis
      by (simp add: 1 String_remove_first_def Number_multiply_def Math_round_def fl_zero
          floor_half)
  next
    case 2
    then have n: "n < 2 ^ 51" using assms by simp
    obtain x y where a: "fl (of_int n / 100) = Finite x" "0 < x" "x < 10 ^ 21"
      "\<lfloor>x * 100 + 1 / 2\<rfloor> = n" "fl (x * 100) = Finite y" "\<lfloor>y + 1 / 2\<rfloor> = n"
      using cents_arithmetic [OF 2 n] by blast
    have "Number_toFixed (Number_divide (Finite (of_int n)) 100) 2 = Inr (fixed2 n)"
      using Number_toFixed_2 [of x] a(1,2,3,4) by (simp add: Number_divide_def)
    moreover have "parseFloat (fixed2 n) = Finite x"
      using parseFloat_fixed2(1) [of n] 2 a(1) by simp
    ultimately show ?thesis
      using a(5,6) by (simp add: String_remove_first_def Number_multiply_def Math_round_def)
  next
    case 3
    define k where "k = - n"
    have k: "0 < k" "k < 2 ^ 51" using 3 assms by (simp_all add: k_def)
    have nk: "(of_int n :: rat) = - of_int k" by (simp add: k_def)
    obtain x y where a: "fl (of_int k / 100) = Finite x" "0 < x" "x < 10 ^ 21"
      "\<lfloor>x * 100 + 1 / 2\<rfloor> = k" "fl (x * 100) = Finite y" "\<lfloor>- y + 1 / 2\<rfloor> = - k"
      using cents_arithmetic [OF k] by blast
    have fx: "fl (- (of_int k / 100)) = Finite (- x)" using a(1) by (rule fl_minus)
    have fy: "fl (- (x * 100)) = Finite (- y)" using a(5) by (rule fl_minus)
    have "Number_toFixed (Number_divide (Finite (of_int n)) 100) 2 = Inr (''-'' @ fixed2 k)"
      using Number_toFixed_2 [of "- x"] a(2,3,4) fx by (simp add: Number_divide_def nk)
    moreover have "parseFloat (''-'' @ fixed2 k) = Finite (- x)"
      using parseFloat_fixed2(2) [of k] k(1) fx by simp
    ultimately show ?thesis
      using fy a(6)
      by (simp add: String_remove_first_def Number_multiply_def Math_round_def nk)
  qed
qed

subsection \<open>Dates that \<^verbatim>\<open>new Date\<close> made\<close>

lemma Date_new_range: "Date_new h s = DateValue t \<Longrightarrow> \<bar>t\<bar> \<le> 8640000000000000"
  by (auto simp add: Date_new_def TimeClip_def Option.bind_eq_Some_conv
      split: option.splits if_splits)

text \<open>A date that \<^verbatim>\<open>new Date\<close> made is written by \<^verbatim>\<open>toISOString\<close> as a non-empty string
  that \<^verbatim>\<open>new Date\<close> reads back, on any host, as the same date.\<close>

lemma Date_round_trip:
  assumes "Date_new h s = DateValue t"
  shows "\<exists>s'. Date_toISOString (Date_new h s) = Inr s' \<and> truthy_string s'
           \<and> Date_new h' s' = Date_new h s"
  using Date_new_toISOString [OF Date_new_range [OF assms], of h'] assms
  by (auto simp add: truthy_string_def)

lemma Date_cases: "d = InvalidDate \<or> (\<exists>t. d = DateValue t)"
  by (cases d) simp_all


subsection \<open>The built-ins at the values of the examples\<close>

lemma Date_new_test_created: "Date_new h ''2025-01-01T10:00:00Z'' = DateValue 1735725600000"
  by code_simp

lemma Date_new_test_updated: "Date_new h ''2025-01-02T10:00:00Z'' = DateValue 1735812000000"
  by code_simp

lemma Date_toISOString_test_created: "Date_toISOString (DateValue 1735725600000) = Inr ''2025-01-01T10:00:00.000Z''"
  by code_simp

lemma Date_toISOString_test_updated: "Date_toISOString (DateValue 1735812000000) = Inr ''2025-01-02T10:00:00.000Z''"
  by code_simp



lemma Date_new_not_a_date: "Date_new utc_host ''not a date'' = InvalidDate"
  by code_simp

lemma toFixed_1999: "Number_toFixed (Number_divide (Finite 1999) 100) 2 = Inr ''19.99''"
  by code_simp

lemma read_price_1999: "Math_round (Number_multiply (parseFloat (String_remove_first CHR ''$'' ''$19.99'')) 100) = Finite 1999"
  by code_simp

lemma toFixed_big: "Number_toFixed (Number_divide (Finite 4263461725460945) 100) 2 = Inr ''42634617254609.45''"
  by code_simp

lemma read_price_big: "Math_round (Number_multiply (parseFloat (String_remove_first CHR ''$'' ''$42634617254609.45'')) 100) = Finite 4263461725460946"
  by code_simp

lemma toFixed_big_next: "Number_toFixed (Number_divide (Finite 4263461725460946) 100) 2 = Inr ''42634617254609.46''"
  by code_simp



lemma Date_new_usage_message: "Date_new h ''2025-06-15T12:00:00Z'' = DateValue 1749988800000"
  by code_simp




section \<open>Arrays of nested records\<close>

lemma TaskMapper_toViewModel_total: "\<exists>v. TaskMapper_toViewModel d = Inr v"
  by (simp add: TaskMapper_toViewModel_def AssigneeMapper_toViewModel_def)

lemma TaskMapper_toDomainModel_total: "\<exists>d. TaskMapper_toDomainModel v = Inr d"
  by (simp add: TaskMapper_toDomainModel_def AssigneeMapper_toDomainModel_def)

lemma RoleMapper_toViewModel_total: "\<exists>v. RoleMapper_toViewModel d = Inr v"
  by (simp add: RoleMapper_toViewModel_def)

lemma RoleMapper_toDomainModel_total: "\<exists>d. RoleMapper_toDomainModel v = Inr d"
  by (simp add: RoleMapper_toDomainModel_def)

lemma ProjectMapper_toViewModel_tasks:
  "\<exists>v. ProjectMapper_toViewModel d = Inr v
     \<and> length (ProjectV_tasks v) = length (ProjectD_tasks d)
     \<and> (\<forall>i < length (ProjectD_tasks d).
           TaskMapper_toViewModel (ProjectD_tasks d ! i) = Inr (ProjectV_tasks v ! i))"
proof -
  obtain ts where ts: "Array_map TaskMapper_toViewModel (ProjectD_tasks d) = Inr ts"
    using Array_map_total [of "ProjectD_tasks d" TaskMapper_toViewModel]
      TaskMapper_toViewModel_total by blast
  show ?thesis
    using ts Array_map_length [OF ts] Array_map_nth [OF ts]
    by (simp add: ProjectMapper_toViewModel_def)
qed

lemma ProjectMapper_toDomainModel_tasks:
  "\<exists>d. ProjectMapper_toDomainModel v = Inr d
     \<and> length (ProjectD_tasks d) = length (ProjectV_tasks v)
     \<and> (\<forall>i < length (ProjectV_tasks v).
           TaskMapper_toDomainModel (ProjectV_tasks v ! i) = Inr (ProjectD_tasks d ! i))"
proof -
  obtain ts where ts: "Array_map TaskMapper_toDomainModel (ProjectV_tasks v) = Inr ts"
    using Array_map_total [of "ProjectV_tasks v" TaskMapper_toDomainModel]
      TaskMapper_toDomainModel_total by blast
  show ?thesis
    using ts Array_map_length [OF ts] Array_map_nth [OF ts]
    by (simp add: ProjectMapper_toDomainModel_def)
qed

lemma UserMapper_toViewModel_roles:
  "\<exists>v. UserMapper_toViewModel d = Inr v
     \<and> length (UserV_roles v) = length (UserD_roles d)
     \<and> (\<forall>i < length (UserD_roles d).
           RoleMapper_toViewModel (UserD_roles d ! i) = Inr (UserV_roles v ! i))"
proof -
  obtain rs where rs: "Array_map RoleMapper_toViewModel (UserD_roles d) = Inr rs"
    using Array_map_total [of "UserD_roles d" RoleMapper_toViewModel]
      RoleMapper_toViewModel_total by blast
  show ?thesis
    using rs Array_map_length [OF rs] Array_map_nth [OF rs]
    by (simp add: UserMapper_toViewModel_def)
qed

lemma UserMapper_toDomainModel_roles:
  "\<exists>d. UserMapper_toDomainModel v = Inr d
     \<and> length (UserD_roles d) = length (UserV_roles v)
     \<and> (\<forall>i < length (UserV_roles v).
           RoleMapper_toDomainModel (UserV_roles v ! i) = Inr (UserD_roles d ! i))"
proof -
  obtain rs where rs: "Array_map RoleMapper_toDomainModel (UserV_roles v) = Inr rs"
    using Array_map_total [of "UserV_roles v" RoleMapper_toDomainModel]
      RoleMapper_toDomainModel_total by blast
  show ?thesis
    using rs Array_map_length [OF rs] Array_map_nth [OF rs]
    by (simp add: UserMapper_toDomainModel_def)
qed

text \<open>
  Claim C4. Mapping a record that holds an array of nested records preserves the length
  and the order of the array. For every \<^verbatim>\<open>ProjectDomainModel\<close> the call
  \<^verbatim>\<open>ProjectMapper.toViewModel\<close> returns a view whose \<^verbatim>\<open>tasks\<close> has the length of the
  domain's \<^verbatim>\<open>tasks\<close>, and whose element \<open>i\<close> is what \<^verbatim>\<open>TaskMapper.toViewModel\<close> returns
  on element \<open>i\<close> of the input; the same holds for \<^verbatim>\<open>ProjectMapper.toDomainModel\<close>, and
  for \<^verbatim>\<open>roles\<close> under both directions of the user-management \<^verbatim>\<open>UserMapper\<close>.
\<close>

theorem array_mapping_preserves_length_and_order:
  "(\<exists>v. ProjectMapper_toViewModel pd = Inr v
      \<and> length (ProjectV_tasks v) = length (ProjectD_tasks pd)
      \<and> (\<forall>i < length (ProjectD_tasks pd).
            TaskMapper_toViewModel (ProjectD_tasks pd ! i) = Inr (ProjectV_tasks v ! i)))
   \<and> (\<exists>d. ProjectMapper_toDomainModel pv = Inr d
      \<and> length (ProjectD_tasks d) = length (ProjectV_tasks pv)
      \<and> (\<forall>i < length (ProjectV_tasks pv).
            TaskMapper_toDomainModel (ProjectV_tasks pv ! i) = Inr (ProjectD_tasks d ! i)))
   \<and> (\<exists>v. UserMapper_toViewModel ud = Inr v
      \<and> length (UserV_roles v) = length (UserD_roles ud)
      \<and> (\<forall>i < length (UserD_roles ud).
            RoleMapper_toViewModel (UserD_roles ud ! i) = Inr (UserV_roles v ! i)))
   \<and> (\<exists>d. UserMapper_toDomainModel uv = Inr d
      \<and> length (UserD_roles d) = length (UserV_roles uv)
      \<and> (\<forall>i < length (UserV_roles uv).
            RoleMapper_toDomainModel (UserV_roles uv ! i) = Inr (UserD_roles d ! i)))"
  using ProjectMapper_toViewModel_tasks ProjectMapper_toDomainModel_tasks
    UserMapper_toViewModel_roles UserMapper_toDomainModel_roles
  by blast

text \<open>The theorem at the project and the user of the usage examples, and at their views.\<close>

theorem array_mapping_witness:
  "ProjectMapper_toViewModel usage_project =
     Inr \<lparr> ProjectV_id = ''p1'', ProjectV_name = ''Website Redesign'',
           ProjectV_tasks =
             [\<lparr> TaskV_id = ''t1'', TaskV_title = ''Design homepage'', TaskV_isDone = False,
                TaskV_assignee = \<lparr> AssigneeV_id = ''u1'', AssigneeV_displayName = ''Alice'' \<rparr> \<rparr>] \<rparr>
   \<and> ProjectMapper_toDomainModel
         \<lparr> ProjectV_id = ''p1'', ProjectV_name = ''Website Redesign'',
           ProjectV_tasks =
             [\<lparr> TaskV_id = ''t1'', TaskV_title = ''Design homepage'', TaskV_isDone = False,
                TaskV_assignee = \<lparr> AssigneeV_id = ''u1'', AssigneeV_displayName = ''Alice'' \<rparr> \<rparr>] \<rparr>
       = Inr usage_project
   \<and> UserMapper_toViewModel usage_user =
     Inr \<lparr> UserV_id = ''u1'', UserV_email = ''user@example.com'', UserV_name = ''Jane Doe'',
           UserV_roles = [\<lparr> RoleV_id = ''r1'', RoleV_label = ''admin'' \<rparr>,
                          \<lparr> RoleV_id = ''r2'', RoleV_label = ''editor'' \<rparr>] \<rparr>
   \<and> UserMapper_toDomainModel
         \<lparr> UserV_id = ''u1'', UserV_email = ''user@example.com'', UserV_name = ''Jane Doe'',
           UserV_roles = [\<lparr> RoleV_id = ''r1'', RoleV_label = ''admin'' \<rparr>,
                          \<lparr> RoleV_id = ''r2'', RoleV_label = ''editor'' \<rparr>] \<rparr>
       = Inr usage_user
   \<and> RoleMapper_toViewModel (UserD_roles usage_user ! 1)
       = Inr \<lparr> RoleV_id = ''r2'', RoleV_label = ''editor'' \<rparr>"
  using array_mapping_preserves_length_and_order
    [of usage_project
        "\<lparr> ProjectV_id = ''p1'', ProjectV_name = ''Website Redesign'',
           ProjectV_tasks =
             [\<lparr> TaskV_id = ''t1'', TaskV_title = ''Design homepage'', TaskV_isDone = False,
                TaskV_assignee = \<lparr> AssigneeV_id = ''u1'', AssigneeV_displayName = ''Alice'' \<rparr> \<rparr>] \<rparr>"
        usage_user
        "\<lparr> UserV_id = ''u1'', UserV_email = ''user@example.com'', UserV_name = ''Jane Doe'',
           UserV_roles = [\<lparr> RoleV_id = ''r1'', RoleV_label = ''admin'' \<rparr>,
                          \<lparr> RoleV_id = ''r2'', RoleV_label = ''editor'' \<rparr>] \<rparr>"]
  by (simp add: usage_project_def usage_user_def ProjectMapper_toViewModel_def
      ProjectMapper_toDomainModel_def UserMapper_toViewModel_def UserMapper_toDomainModel_def
      TaskMapper_toViewModel_def TaskMapper_toDomainModel_def AssigneeMapper_toViewModel_def
      AssigneeMapper_toDomainModel_def RoleMapper_toViewModel_def RoleMapper_toDomainModel_def)

section \<open>Optional nested records\<close>



section \<open>The truthiness test on due dates\<close>

text \<open>
  Claim C9. \<^verbatim>\<open>TodoMapper\<close> tests \<^verbatim>\<open>due_date\<close> for truthiness, not for null. For the
  domain record whose \<^verbatim>\<open>due_date\<close> is the empty string, \<^verbatim>\<open>toViewModel\<close> returns
  \<^verbatim>\<open>dueDate: null\<close>, and \<^verbatim>\<open>toDomainModel\<close> of that view returns \<^verbatim>\<open>due_date: null\<close>,
  not the empty string. Every other string is handed to \<^verbatim>\<open>new Date\<close>.
\<close>

theorem TodoMapper_empty_due_date:
  "TodoMapper_toViewModel h
       \<lparr> TodoD_id = i, TodoD_text = x, TodoD_completed = c, TodoD_due_date = Some [] \<rparr>
     = Inr \<lparr> TodoV_id = i, TodoV_text = x, TodoV_isDone = c, TodoV_dueDate = None \<rparr>
   \<and> TodoMapper_toDomainModel
       \<lparr> TodoV_id = i, TodoV_text = x, TodoV_isDone = c, TodoV_dueDate = None \<rparr>
     = Inr \<lparr> TodoD_id = i, TodoD_text = x, TodoD_completed = c, TodoD_due_date = None \<rparr>
   \<and> (\<forall>s. s \<noteq> [] \<longrightarrow>
         TodoMapper_toViewModel h
             \<lparr> TodoD_id = i, TodoD_text = x, TodoD_completed = c, TodoD_due_date = Some s \<rparr>
           = Inr \<lparr> TodoV_id = i, TodoV_text = x, TodoV_isDone = c,
                   TodoV_dueDate = Some (Date_new h s) \<rparr>)"
  by (simp add: TodoMapper_toViewModel_def TodoMapper_toDomainModel_def truthy_string_def)

theorem TodoMapper_empty_due_date_witness:
  "TodoMapper_toViewModel utc_host
       \<lparr> TodoD_id = ''t1'', TodoD_text = ''Buy milk'', TodoD_completed = False,
         TodoD_due_date = Some [] \<rparr>
     = Inr \<lparr> TodoV_id = ''t1'', TodoV_text = ''Buy milk'', TodoV_isDone = False,
             TodoV_dueDate = None \<rparr>
   \<and> TodoMapper_toDomainModel
       \<lparr> TodoV_id = ''t1'', TodoV_text = ''Buy milk'', TodoV_isDone = False,
         TodoV_dueDate = None \<rparr>
     = Inr \<lparr> TodoD_id = ''t1'', TodoD_text = ''Buy milk'', TodoD_completed = False,
             TodoD_due_date = None \<rparr>
   \<and> TodoMapper_toViewModel utc_host usage_todo
     = Inr \<lparr> TodoV_id = ''t1'', TodoV_text = ''Buy milk'', TodoV_isDone = False,
             TodoV_dueDate = Some (DateValue 1750420800000) \<rparr>"
  using TodoMapper_empty_due_date [of utc_host "''t1''" "''Buy milk''" False]
  by (simp add: usage_todo_def Date_new_usage_todo)

section \<open>Invalid Dates\<close>

text \<open>
  Claim C10. \<^verbatim>\<open>toDomainModel\<close> is not total over the declared view shape. On every
  view record whose \<^verbatim>\<open>Date\<close> field holds an Invalid Date, \<^verbatim>\<open>toDomainModel\<close> throws the
  RangeError that \<^verbatim>\<open>toISOString\<close> raises: for \<^verbatim>\<open>TodoMapper\<close>, for the blog's
  \<^verbatim>\<open>PostMapper\<close> and for \<^verbatim>\<open>MessageMapper\<close>.
\<close>

theorem toDomainModel_throws_on_InvalidDate:
  "(TodoV_dueDate tv = Some InvalidDate \<longrightarrow> TodoMapper_toDomainModel tv = Inl RangeError)
   \<and> (PostV_publishedAt pv = InvalidDate \<longrightarrow> PostMapper_toDomainModel pv = Inl RangeError)
   \<and> (MessageV_sentAt mv = InvalidDate \<longrightarrow> MessageMapper_toDomainModel mv = Inl RangeError)"
  by (simp add: TodoMapper_toDomainModel_def PostMapper_toDomainModel_def
      MessageMapper_toDomainModel_def Date_toISOString_def AuthorMapper_toDomainModel_def)

theorem toDomainModel_throws_on_InvalidDate_witness:
  "TodoMapper_toDomainModel
       \<lparr> TodoV_id = ''t1'', TodoV_text = ''Buy milk'', TodoV_isDone = False,
         TodoV_dueDate = Some InvalidDate \<rparr> = Inl RangeError
   \<and> PostMapper_toDomainModel
       \<lparr> PostV_id = ''1'', PostV_title = ''Hello World'', PostV_content = ''Welcome to the blog!'',
         PostV_author = \<lparr> AuthorV_id = ''a1'', AuthorV_displayName = ''Alice'',
                          AuthorV_avatarUrl = ''/alice.png'' \<rparr>,
         PostV_publishedAt = InvalidDate \<rparr> = Inl RangeError
   \<and> MessageMapper_toDomainModel
       \<lparr> MessageV_id = ''m1'', MessageV_sender = ''Bob'', MessageV_text = ''See attached'',
         MessageV_sentAt = InvalidDate, MessageV_attachment = Null \<rparr> = Inl RangeError"
  using toDomainModel_throws_on_InvalidDate
    [of "\<lparr> TodoV_id = ''t1'', TodoV_text = ''Buy milk'', TodoV_isDone = False,
            TodoV_dueDate = Some InvalidDate \<rparr>"
        "\<lparr> PostV_id = ''1'', PostV_title = ''Hello World'', PostV_content = ''Welcome to the blog!'',
           PostV_author = \<lparr> AuthorV_id = ''a1'', AuthorV_displayName = ''Alice'',
                            AuthorV_avatarUrl = ''/alice.png'' \<rparr>,
           PostV_publishedAt = InvalidDate \<rparr>"
        "\<lparr> MessageV_id = ''m1'', MessageV_sender = ''Bob'', MessageV_text = ''See attached'',
           MessageV_sentAt = InvalidDate, MessageV_attachment = Null \<rparr>"]
  by simp

section \<open>toViewModel returns\<close>

lemma Number_toFixed_2_total: "\<exists>p. Number_toFixed x 2 = Inr p"
  by (simp add: Number_toFixed_def)

text \<open>
  Claim C6. \<^verbatim>\<open>toViewModel\<close> never throws on an input of the declared shape: for every
  domain record, whatever strings its date fields hold and whatever Number its
  \<^verbatim>\<open>price_cents\<close> is, every mapper's \<^verbatim>\<open>toViewModel\<close> returns a view record, on every
  host.
\<close>

theorem toViewModel_never_throws:
  "(\<exists>v. TodoMapper_toViewModel h todo = Inr v)
   \<and> (\<exists>v. ProductMapper_toViewModel product = Inr v)
   \<and> (\<exists>v. PostMapper_toViewModel h post = Inr v)
   \<and> (\<exists>v. MessageMapper_toViewModel h message = Inr v)
   \<and> (\<exists>v. ProjectMapper_toViewModel project = Inr v)
   \<and> (\<exists>v. UserMapper_toViewModel user = Inr v)
   \<and> (\<exists>v. GuidePostMapper_toViewModel h guide_post = Inr v)
   \<and> (\<exists>v. AuthorMapper_toViewModel author = Inr v)
   \<and> (\<exists>v. AttachmentMapper_toViewModel attachment = Inr v)
   \<and> (\<exists>v. CategoryMapper_toViewModel category = Inr v)
   \<and> (\<exists>v. AssigneeMapper_toViewModel assignee = Inr v)
   \<and> (\<exists>v. TaskMapper_toViewModel task = Inr v)
   \<and> (\<exists>v. RoleMapper_toViewModel role = Inr v)"
proof -
  obtain p where p: "Number_toFixed (Number_divide (ProductD_price_cents product) 100) 2 = Inr p"
    using Number_toFixed_2_total by blast
  have product: "\<exists>v. ProductMapper_toViewModel product = Inr v"
    by (simp add: ProductMapper_toViewModel_def p CategoryMapper_toViewModel_def)
  have message: "\<exists>v. MessageMapper_toViewModel h message = Inr v"
    by (cases "MessageD_attachment message")
      (simp_all add: MessageMapper_toViewModel_def AttachmentMapper_toViewModel_def)
  have project: "\<exists>v. ProjectMapper_toViewModel project = Inr v"
    using ProjectMapper_toViewModel_tasks [of project] by blast
  have user: "\<exists>v. UserMapper_toViewModel user = Inr v"
    using UserMapper_toViewModel_roles [of user] by blast
  show ?thesis
    using product message project user
    by (simp add: TodoMapper_toViewModel_def PostMapper_toViewModel_def
        AuthorMapper_toViewModel_def GuidePostMapper_toViewModel_def
        AttachmentMapper_toViewModel_def CategoryMapper_toViewModel_def
        AssigneeMapper_toViewModel_def TaskMapper_toViewModel_def RoleMapper_toViewModel_def)
qed

text \<open>The theorem at a todo whose \<^verbatim>\<open>due_date\<close> is not a date and at a product whose
  \<^verbatim>\<open>price_cents\<close> is NaN.\<close>

theorem toViewModel_never_throws_witness:
  "(\<exists>v. TodoMapper_toViewModel utc_host (usage_todo \<lparr> TodoD_due_date := Some ''not a date'' \<rparr>)
          = Inr v)
   \<and> (\<exists>v. ProductMapper_toViewModel (usage_product \<lparr> ProductD_price_cents := NaN \<rparr>) = Inr v)"
  using toViewModel_never_throws
    [of utc_host "usage_todo \<lparr> TodoD_due_date := Some ''not a date'' \<rparr>"
        "usage_product \<lparr> ProductD_price_cents := NaN \<rparr>"]
  by blast

section \<open>Inputs that a transform cannot handle\<close>

text \<open>
  Claim C2, as amended. On an input on which a per-field transform cannot succeed the
  mappers report no failure at the point of the transform and put the sentinel of the
  built-in into the record. \<^verbatim>\<open>TodoMapper.toViewModel\<close> on a non-empty \<^verbatim>\<open>due_date\<close> that
  \<^verbatim>\<open>Date.parse\<close> rejects returns a view whose \<^verbatim>\<open>dueDate\<close> is an Invalid Date; the failure,
  a RangeError, is raised only when \<^verbatim>\<open>toDomainModel\<close> is applied to that view.
  \<^verbatim>\<open>ProductMapper.toDomainModel\<close> on a price that, with its first \<^verbatim>\<open>$\<close> removed, has no
  numeric prefix returns a domain record whose \<^verbatim>\<open>price_cents\<close> is NaN.
\<close>

theorem unparsable_input_gives_sentinel:
  "(Date_parse h s = None \<and> s \<noteq> [] \<longrightarrow>
      TodoMapper_toViewModel h (todo \<lparr> TodoD_due_date := Some s \<rparr>)
        = Inr \<lparr> TodoV_id = TodoD_id todo, TodoV_text = TodoD_text todo,
                TodoV_isDone = TodoD_completed todo, TodoV_dueDate = Some InvalidDate \<rparr>
      \<and> TodoMapper_toDomainModel
            \<lparr> TodoV_id = TodoD_id todo, TodoV_text = TodoD_text todo,
              TodoV_isDone = TodoD_completed todo, TodoV_dueDate = Some InvalidDate \<rparr>
          = Inl RangeError)
   \<and> (parseFloat (String_remove_first CHR ''$'' p) = NaN \<longrightarrow>
      (\<exists>d. ProductMapper_toDomainModel (view \<lparr> ProductV_price := p \<rparr>) = Inr d
           \<and> ProductD_price_cents d = NaN))"
  by (simp add: TodoMapper_toViewModel_def TodoMapper_toDomainModel_def truthy_string_def
      Date_new_def Date_toISOString_def ProductMapper_toDomainModel_def
      CategoryMapper_toDomainModel_def Number_multiply_def Math_round_def)

lemma Date_parse_not_a_date: "Date_parse utc_host ''not a date'' = None"
  by code_simp

lemma parseFloat_abc: "parseFloat (String_remove_first CHR ''$'' ''abc'') = NaN"
  by code_simp

text \<open>The theorem at the due date \<^verbatim>\<open>not a date\<close> and at the price \<^verbatim>\<open>abc\<close>.\<close>

theorem unparsable_input_gives_sentinel_witness:
  "TodoMapper_toViewModel utc_host (usage_todo \<lparr> TodoD_due_date := Some ''not a date'' \<rparr>)
     = Inr \<lparr> TodoV_id = ''t1'', TodoV_text = ''Buy milk'', TodoV_isDone = False,
             TodoV_dueDate = Some InvalidDate \<rparr>
   \<and> TodoMapper_toDomainModel
         \<lparr> TodoV_id = ''t1'', TodoV_text = ''Buy milk'', TodoV_isDone = False,
           TodoV_dueDate = Some InvalidDate \<rparr> = Inl RangeError
   \<and> (\<exists>d. ProductMapper_toDomainModel (usage_product_view \<lparr> ProductV_price := ''abc'' \<rparr>) = Inr d
        \<and> ProductD_price_cents d = NaN)"
  using unparsable_input_gives_sentinel
    [of utc_host "''not a date''" usage_todo "''abc''" usage_product_view]
  by (simp add: Date_parse_not_a_date parseFloat_abc usage_todo_def)

text \<open>
  Claim C2 as it is stated fails at the view of the usage example's product with the
  price \<^verbatim>\<open>abc\<close>, which cannot be parsed back to a count of cents:
  \<^verbatim>\<open>ProductMapper.toDomainModel\<close> reports no failure and returns a domain record, with
  \<^verbatim>\<open>price_cents: NaN\<close>. Likewise \<^verbatim>\<open>TodoMapper.toViewModel\<close> returns a view record for
  the due date \<^verbatim>\<open>not a date\<close>.
\<close>

theorem unparsable_input_counterexample:
  "ProductMapper_toDomainModel
       \<lparr> ProductV_id = ''p1'', ProductV_name = ''T-Shirt'', ProductV_price = ''abc'',
         ProductV_category = \<lparr> CategoryV_id = ''c1'', CategoryV_label = ''Apparel'' \<rparr>,
         ProductV_imageUrl = ''/tshirt.png'' \<rparr>
     = Inr \<lparr> ProductD_id = ''p1'', ProductD_name = ''T-Shirt'', ProductD_price_cents = NaN,
             ProductD_category = \<lparr> CategoryD_id = ''c1'', CategoryD_name = ''Apparel'' \<rparr>,
             ProductD_image_url = ''/tshirt.png'' \<rparr>
   \<and> TodoMapper_toViewModel utc_host
       \<lparr> TodoD_id = ''t1'', TodoD_text = ''Buy milk'', TodoD_completed = False,
         TodoD_due_date = Some ''not a date'' \<rparr>
     = Inr \<lparr> TodoV_id = ''t1'', TodoV_text = ''Buy milk'', TodoV_isDone = False,
             TodoV_dueDate = Some InvalidDate \<rparr>"
  by (simp add: ProductMapper_toDomainModel_def CategoryMapper_toDomainModel_def
      parseFloat_abc Number_multiply_def Math_round_def TodoMapper_toViewModel_def
      truthy_string_def Date_new_not_a_date)

section \<open>The currency transform\<close>

lemma ProductMapper_round_trip:
  fixes n :: int
  assumes "\<bar>n\<bar> < 2 ^ 51" "ProductD_price_cents d = Finite (of_int n)"
  shows "\<exists>v. ProductMapper_toViewModel d = Inr v \<and> ProductMapper_toDomainModel v = Inr d"
proof -
  obtain p where p: "Number_toFixed (Number_divide (Finite (of_int n)) 100) 2 = Inr p"
    "Math_round (Number_multiply (parseFloat (String_remove_first CHR ''$'' (''$'' @ p))) 100)
       = Finite (of_int n)"
    using price_round_trip [OF assms(1)] by blast
  show ?thesis
    using p assms(2)
    by (simp add: ProductMapper_toViewModel_def ProductMapper_toDomainModel_def
        CategoryMapper_toViewModel_def CategoryMapper_toDomainModel_def)
qed

text \<open>
  Claim C3, as amended. \<^verbatim>\<open>ProductMapper.toViewModel\<close> maps \<^verbatim>\<open>price_cents: 1999\<close> to the
  price \<^verbatim>\<open>"$19.99"\<close> and \<^verbatim>\<open>ProductMapper.toDomainModel\<close> maps \<^verbatim>\<open>"$19.99"\<close> back to
  1999; and for every domain record whose \<^verbatim>\<open>price_cents\<close> is an integer \<open>n\<close> with
  \<open>\<bar>n\<bar> < 2 ^ 51\<close>, \<^verbatim>\<open>toDomainModel(toViewModel(d))\<close> is \<open>d\<close>.
\<close>

theorem currency_round_trip:
  "ProductMapper_toViewModel usage_product = Inr usage_product_view
   \<and> ProductMapper_toDomainModel usage_product_view = Inr usage_product
   \<and> (\<bar>n\<bar> < 2 ^ 51 \<and> ProductD_price_cents d = Finite (of_int n) \<longrightarrow>
        (\<exists>v. ProductMapper_toViewModel d = Inr v \<and> ProductMapper_toDomainModel v = Inr d))"
  using ProductMapper_round_trip [of n d]
  by (simp add: usage_product_def usage_product_view_def ProductMapper_toViewModel_def
      ProductMapper_toDomainModel_def CategoryMapper_toViewModel_def
      CategoryMapper_toDomainModel_def toFixed_1999 read_price_1999)

text \<open>The theorem at a refund of 2.50, \<^verbatim>\<open>price_cents: -250\<close>.\<close>

theorem currency_round_trip_witness:
  "\<exists>v. ProductMapper_toViewModel (usage_product \<lparr> ProductD_price_cents := Finite (- 250) \<rparr>) = Inr v
      \<and> ProductMapper_toDomainModel v
          = Inr (usage_product \<lparr> ProductD_price_cents := Finite (- 250) \<rparr>)"
  using currency_round_trip [of "- 250" "usage_product \<lparr> ProductD_price_cents := Finite (- 250) \<rparr>"]
  by simp

text \<open>
  Claim C3 as it is stated, for every integer \<^verbatim>\<open>price_cents\<close>, fails at
  4263461725460945, an integer below \<open>2 ^ 53\<close>: the price is written as
  \<^verbatim>\<open>"$42634617254609.45"\<close>, and read back as 4263461725460946.
\<close>

theorem currency_round_trip_counterexample:
  "ProductMapper_toViewModel big_product
     = Inr \<lparr> ProductV_id = ''p1'', ProductV_name = ''T-Shirt'',
             ProductV_price = ''$42634617254609.45'',
             ProductV_category = \<lparr> CategoryV_id = ''c1'', CategoryV_label = ''Apparel'' \<rparr>,
             ProductV_imageUrl = ''/tshirt.png'' \<rparr>
   \<and> ProductMapper_toDomainModel
         \<lparr> ProductV_id = ''p1'', ProductV_name = ''T-Shirt'',
           ProductV_price = ''$42634617254609.45'',
           ProductV_category = \<lparr> CategoryV_id = ''c1'', CategoryV_label = ''Apparel'' \<rparr>,
           ProductV_imageUrl = ''/tshirt.png'' \<rparr>
     = Inr (big_product \<lparr> ProductD_price_cents := Finite 4263461725460946 \<rparr>)
   \<and> big_product \<lparr> ProductD_price_cents := Finite 4263461725460946 \<rparr> \<noteq> big_product"
  by (simp add: big_product_def ProductMapper_toViewModel_def ProductMapper_toDomainModel_def
      CategoryMapper_toViewModel_def CategoryMapper_toDomainModel_def toFixed_big read_price_big)

section \<open>The round trip from a view record\<close>

lemma TodoMapper_view_round_trip:
  assumes "TodoMapper_toViewModel h d = Inr v" "TodoV_dueDate v \<noteq> Some InvalidDate"
  shows "\<exists>d'. TodoMapper_toDomainModel v = Inr d' \<and> TodoMapper_toViewModel h' d' = Inr v"
proof (cases "\<exists>s. TodoD_due_date d = Some s \<and> truthy_string s")
  case True
  then obtain s where s: "TodoD_due_date d = Some s" "truthy_string s" by blast
  have v: "v = \<lparr> TodoV_id = TodoD_id d, TodoV_text = TodoD_text d,
      TodoV_isDone = TodoD_completed d, TodoV_dueDate = Some (Date_new h s) \<rparr>"
    using assms(1) s by (simp add: TodoMapper_toViewModel_def)
  then obtain t where "Date_new h s = DateValue t"
    using assms(2) Date_cases [of "Date_new h s"] by auto
  then obtain s' where "Date_toISOString (Date_new h s) = Inr s'" "truthy_string s'"
    "Date_new h' s' = Date_new h s"
    using Date_round_trip [of h s t h'] by blast
  then show ?thesis
    by (simp add: v TodoMapper_toDomainModel_def TodoMapper_toViewModel_def)
next
  case False
  then have "v = \<lparr> TodoV_id = TodoD_id d, TodoV_text = TodoD_text d,
      TodoV_isDone = TodoD_completed d, TodoV_dueDate = None \<rparr>"
    using assms(1) by (cases "TodoD_due_date d") (auto simp add: TodoMapper_toViewModel_def)
  then show ?thesis
    by (simp add: TodoMapper_toDomainModel_def TodoMapper_toViewModel_def)
qed

lemma PostMapper_view_round_trip:
  assumes "PostMapper_toViewModel h d = Inr v" "PostV_publishedAt v \<noteq> InvalidDate"
  shows "\<exists>d'. PostMapper_toDomainModel v = Inr d' \<and> PostMapper_toViewModel h' d' = Inr v"
proof -
  have v: "v = \<lparr> PostV_id = PostD_id d, PostV_title = PostD_title d,
      PostV_content = PostD_content d,
      PostV_author = \<lparr> AuthorV_id = AuthorD_id (PostD_author d),
                       AuthorV_displayName = AuthorD_name (PostD_author d),
                       AuthorV_avatarUrl = AuthorD_avatar_url (PostD_author d) \<rparr>,
      PostV_publishedAt = Date_new h (PostD_published_at d) \<rparr>"
    using assms(1) by (simp add: PostMapper_toViewModel_def AuthorMapper_toViewModel_def)
  then obtain t where "Date_new h (PostD_published_at d) = DateValue t"
    using assms(2) Date_cases [of "Date_new h (PostD_published_at d)"] by auto
  then obtain s' where "Date_toISOString (Date_new h (PostD_published_at d)) = Inr s'"
    "Date_new h' s' = Date_new h (PostD_published_at d)"
    using Date_round_trip [of h "PostD_published_at d" t h'] by blast
  then show ?thesis
    by (simp add: v PostMapper_toDomainModel_def PostMapper_toViewModel_def
        AuthorMapper_toDomainModel_def AuthorMapper_toViewModel_def)
qed

lemma MessageMapper_view_round_trip:
  assumes "MessageMapper_toViewModel h d = Inr v" "MessageV_sentAt v \<noteq> InvalidDate"
  shows "\<exists>d'. MessageMapper_toDomainModel v = Inr d' \<and> MessageMapper_toViewModel h' d' = Inr v"
proof -
  define att where "att =
    (case MessageD_attachment d of
       Present a \<Rightarrow> Present \<lparr> AttachmentV_id = AttachmentD_id a, AttachmentV_url = AttachmentD_url a,
                               AttachmentV_kind = AttachmentD_type a \<rparr>
     | _ \<Rightarrow> Null)"
  have v: "v = \<lparr> MessageV_id = MessageD_id d, MessageV_sender = MessageD_sender d,
      MessageV_text = MessageD_text d, MessageV_sentAt = Date_new h (MessageD_sent_at d),
      MessageV_attachment = att \<rparr>"
    using assms(1)
    by (cases "MessageD_attachment d")
      (simp_all add: MessageMapper_toViewModel_def AttachmentMapper_toViewModel_def att_def)
  then obtain t where "Date_new h (MessageD_sent_at d) = DateValue t"
    using assms(2) Date_cases [of "Date_new h (MessageD_sent_at d)"] by auto
  then obtain s' where "Date_toISOString (Date_new h (MessageD_sent_at d)) = Inr s'"
    "Date_new h' s' = Date_new h (MessageD_sent_at d)"
    using Date_round_trip [of h "MessageD_sent_at d" t h'] by blast
  then show ?thesis
    by (cases "MessageD_attachment d")
      (simp_all add: v att_def MessageMapper_toDomainModel_def MessageMapper_toViewModel_def
        AttachmentMapper_toDomainModel_def AttachmentMapper_toViewModel_def)
qed

text \<open>
  Claim C7, as amended. For every view record \<open>v\<close> that \<^verbatim>\<open>toViewModel\<close> produced from a
  domain record, if the \<^verbatim>\<open>Date\<close> in \<open>v\<close> is not an Invalid Date (for \<^verbatim>\<open>TodoMapper\<close>, the
  blog's \<^verbatim>\<open>PostMapper\<close> and \<^verbatim>\<open>MessageMapper\<close>), and if \<^verbatim>\<open>price_cents\<close> is an integer
  \<open>n\<close> with \<open>\<bar>n\<bar> < 2 ^ 51\<close> (for \<^verbatim>\<open>ProductMapper\<close>), then \<^verbatim>\<open>toDomainModel\<close> returns on
  \<open>v\<close>, and \<^verbatim>\<open>toViewModel\<close> of what it returns is \<open>v\<close> again, on every host.
\<close>

theorem view_round_trip:
  "(TodoMapper_toViewModel h td = Inr tv \<and> TodoV_dueDate tv \<noteq> Some InvalidDate \<longrightarrow>
      (\<exists>d'. TodoMapper_toDomainModel tv = Inr d' \<and> TodoMapper_toViewModel h' d' = Inr tv))
   \<and> (PostMapper_toViewModel h pd = Inr pv \<and> PostV_publishedAt pv \<noteq> InvalidDate \<longrightarrow>
      (\<exists>d'. PostMapper_toDomainModel pv = Inr d' \<and> PostMapper_toViewModel h' d' = Inr pv))
   \<and> (MessageMapper_toViewModel h md = Inr mv \<and> MessageV_sentAt mv \<noteq> InvalidDate \<longrightarrow>
      (\<exists>d'. MessageMapper_toDomainModel mv = Inr d' \<and> MessageMapper_toViewModel h' d' = Inr mv))
   \<and> (\<bar>n\<bar> < 2 ^ 51 \<and> ProductD_price_cents d = Finite (of_int n)
        \<and> ProductMapper_toViewModel d = Inr v \<longrightarrow>
      (\<exists>d'. ProductMapper_toDomainModel v = Inr d' \<and> ProductMapper_toViewModel d' = Inr v))"
  using TodoMapper_view_round_trip [of h td tv h'] PostMapper_view_round_trip [of h pd pv h']
    MessageMapper_view_round_trip [of h md mv h'] ProductMapper_round_trip [of n d]
  by auto

text \<open>The theorem at the records of the usage examples, whose views are made on a host
  in UTC and mapped back and forth on a host at UTC+01:00.\<close>

theorem view_round_trip_witness:
  "(\<exists>d'. TodoMapper_toDomainModel
            \<lparr> TodoV_id = ''t1'', TodoV_text = ''Buy milk'', TodoV_isDone = False,
              TodoV_dueDate = Some (DateValue 1750420800000) \<rparr> = Inr d'
        \<and> TodoMapper_toViewModel cet_host d'
            = Inr \<lparr> TodoV_id = ''t1'', TodoV_text = ''Buy milk'', TodoV_isDone = False,
                    TodoV_dueDate = Some (DateValue 1750420800000) \<rparr>)
   \<and> (\<exists>d'. PostMapper_toDomainModel
            \<lparr> PostV_id = ''1'', PostV_title = ''Hello World'',
              PostV_content = ''Welcome to the blog!'',
              PostV_author = \<lparr> AuthorV_id = ''a1'', AuthorV_displayName = ''Alice'',
                               AuthorV_avatarUrl = ''/alice.png'' \<rparr>,
              PostV_publishedAt = DateValue 1748772000000 \<rparr> = Inr d'
        \<and> PostMapper_toViewModel cet_host d'
            = Inr \<lparr> PostV_id = ''1'', PostV_title = ''Hello World'',
                    PostV_content = ''Welcome to the blog!'',
                    PostV_author = \<lparr> AuthorV_id = ''a1'', AuthorV_displayName = ''Alice'',
                                     AuthorV_avatarUrl = ''/alice.png'' \<rparr>,
                    PostV_publishedAt = DateValue 1748772000000 \<rparr>)
   \<and> (\<exists>d'. MessageMapper_toDomainModel
            \<lparr> MessageV_id = ''m1'', MessageV_sender = ''Bob'', MessageV_text = ''See attached'',
              MessageV_sentAt = DateValue 1749988800000,
              MessageV_attachment =
                Present \<lparr> AttachmentV_id = ''a1'', AttachmentV_url = ''/img.png'',
                          AttachmentV_kind = Image \<rparr> \<rparr> = Inr d'
        \<and> MessageMapper_toViewModel cet_host d'
            = Inr \<lparr> MessageV_id = ''m1'', MessageV_sender = ''Bob'',
                    MessageV_text = ''See attached'',
                    MessageV_sentAt = DateValue 1749988800000,
                    MessageV_attachment =
                      Present \<lparr> AttachmentV_id = ''a1'', AttachmentV_url = ''/img.png'',
                                AttachmentV_kind = Image \<rparr> \<rparr>)
   \<and> (\<exists>d'. ProductMapper_toDomainModel usage_product_view = Inr d'
        \<and> ProductMapper_toViewModel d' = Inr usage_product_view)"
  using view_round_trip
    [of utc_host usage_todo
        "\<lparr> TodoV_id = ''t1'', TodoV_text = ''Buy milk'', TodoV_isDone = False,
           TodoV_dueDate = Some (DateValue 1750420800000) \<rparr>"
        cet_host usage_post
        "\<lparr> PostV_id = ''1'', PostV_title = ''Hello World'',
           PostV_content = ''Welcome to the blog!'',
           PostV_author = \<lparr> AuthorV_id = ''a1'', AuthorV_displayName = ''Alice'',
                            AuthorV_avatarUrl = ''/alice.png'' \<rparr>,
           PostV_publishedAt = DateValue 1748772000000 \<rparr>"
        usage_message
        "\<lparr> MessageV_id = ''m1'', MessageV_sender = ''Bob'', MessageV_text = ''See attached'',
           MessageV_sentAt = DateValue 1749988800000,
           MessageV_attachment =
             Present \<lparr> AttachmentV_id = ''a1'', AttachmentV_url = ''/img.png'',
                       AttachmentV_kind = Image \<rparr> \<rparr>"
        1999 usage_product usage_product_view]
  by (simp add: TodoMapper_toViewModel_def usage_todo_def truthy_string_def Date_new_usage_todo
      PostMapper_toViewModel_def usage_post_def AuthorMapper_toViewModel_def Date_new_usage_post
      MessageMapper_toViewModel_def usage_message_def AttachmentMapper_toViewModel_def
      Date_new_usage_message usage_product_def usage_product_view_def
      ProductMapper_toViewModel_def CategoryMapper_toViewModel_def toFixed_1999)

text \<open>
  Claim C7 as it is stated fails at the product whose \<^verbatim>\<open>price_cents\<close> is
  4263461725460945: its view has the price \<^verbatim>\<open>"$42634617254609.45"\<close>, which
  \<^verbatim>\<open>toDomainModel\<close> reads as 4263461725460946, of which \<^verbatim>\<open>toViewModel\<close> makes the
  price \<^verbatim>\<open>"$42634617254609.46"\<close>.
\<close>

theorem view_round_trip_counterexample:
  "ProductMapper_toViewModel big_product
     = Inr \<lparr> ProductV_id = ''p1'', ProductV_name = ''T-Shirt'',
             ProductV_price = ''$42634617254609.45'',
             ProductV_category = \<lparr> CategoryV_id = ''c1'', CategoryV_label = ''Apparel'' \<rparr>,
             ProductV_imageUrl = ''/tshirt.png'' \<rparr>
   \<and> ProductMapper_toDomainModel
         \<lparr> ProductV_id = ''p1'', ProductV_name = ''T-Shirt'',
           ProductV_price = ''$42634617254609.45'',
           ProductV_category = \<lparr> CategoryV_id = ''c1'', CategoryV_label = ''Apparel'' \<rparr>,
           ProductV_imageUrl = ''/tshirt.png'' \<rparr>
     = Inr (big_product \<lparr> ProductD_price_cents := Finite 4263461725460946 \<rparr>)
   \<and> ProductMapper_toViewModel (big_product \<lparr> ProductD_price_cents := Finite 4263461725460946 \<rparr>)
     = Inr \<lparr> ProductV_id = ''p1'', ProductV_name = ''T-Shirt'',
             ProductV_price = ''$42634617254609.46'',
             ProductV_category = \<lparr> CategoryV_id = ''c1'', CategoryV_label = ''Apparel'' \<rparr>,
             ProductV_imageUrl = ''/tshirt.png'' \<rparr>"
  by (simp add: big_product_def ProductMapper_toViewModel_def ProductMapper_toDomainModel_def
      CategoryMapper_toViewModel_def CategoryMapper_toDomainModel_def toFixed_big read_price_big toFixed_big_next)

section \<open>What a mapper reads besides its argument\<close>





section \<open>The round trip from a domain record\<close>

text \<open>
  Claim C1. For every valid domain record \<open>d\<close>, \<^verbatim>\<open>toDomainModel(toViewModel(d))\<close> is to
  be field-for-field equal to \<open>d\<close>. The mappers do not do that on the records of their
  own usage examples, nor on the record of the guide's test, which expects it:
  \<^verbatim>\<open>toISOString\<close> always writes the milliseconds, so the todo's \<^verbatim>\<open>due_date\<close>
  \<^verbatim>\<open>2025-06-20T12:00:00Z\<close> comes back as \<^verbatim>\<open>2025-06-20T12:00:00.000Z\<close>, the blog post's
  \<^verbatim>\<open>published_at\<close> \<^verbatim>\<open>2025-06-01T10:00:00Z\<close> as \<^verbatim>\<open>2025-06-01T10:00:00.000Z\<close>, and the
  test post's \<^verbatim>\<open>created_at\<close> \<^verbatim>\<open>2025-01-01T10:00:00Z\<close> as \<^verbatim>\<open>2025-01-01T10:00:00.000Z\<close>,
  on every host.
\<close>

theorem round_trip_of_usage_examples:
  "TodoMapper_toViewModel h usage_todo =
     Inr \<lparr> TodoV_id = ''t1'', TodoV_text = ''Buy milk'', TodoV_isDone = False,
           TodoV_dueDate = Some (DateValue 1750420800000) \<rparr>
   \<and> TodoMapper_toDomainModel
         \<lparr> TodoV_id = ''t1'', TodoV_text = ''Buy milk'', TodoV_isDone = False,
           TodoV_dueDate = Some (DateValue 1750420800000) \<rparr>
       = Inr (usage_todo \<lparr> TodoD_due_date := Some ''2025-06-20T12:00:00.000Z'' \<rparr>)
   \<and> usage_todo \<lparr> TodoD_due_date := Some ''2025-06-20T12:00:00.000Z'' \<rparr> \<noteq> usage_todo
   \<and> PostMapper_toViewModel h usage_post =
     Inr \<lparr> PostV_id = ''1'', PostV_title = ''Hello World'', PostV_content = ''Welcome to the blog!'',
           PostV_author = \<lparr> AuthorV_id = ''a1'', AuthorV_displayName = ''Alice'',
                            AuthorV_avatarUrl = ''/alice.png'' \<rparr>,
           PostV_publishedAt = DateValue 1748772000000 \<rparr>
   \<and> PostMapper_toDomainModel
         \<lparr> PostV_id = ''1'', PostV_title = ''Hello World'', PostV_content = ''Welcome to the blog!'',
           PostV_author = \<lparr> AuthorV_id = ''a1'', AuthorV_displayName = ''Alice'',
                            AuthorV_avatarUrl = ''/alice.png'' \<rparr>,
           PostV_publishedAt = DateValue 1748772000000 \<rparr>
       = Inr (usage_post \<lparr> PostD_published_at := ''2025-06-01T10:00:00.000Z'' \<rparr>)
   \<and> usage_post \<lparr> PostD_published_at := ''2025-06-01T10:00:00.000Z'' \<rparr> \<noteq> usage_post
   \<and> GuidePostMapper_toViewModel h test_post
     = Inr \<lparr> GuidePostV_id = ''1'', GuidePostV_title = ''Test Post'',
             GuidePostV_description = ''This is a test post.'', GuidePostV_stars = Finite 5,
             GuidePostV_createdAt = DateValue 1735725600000,
             GuidePostV_updatedAt = DateValue 1735812000000 \<rparr>
   \<and> GuidePostMapper_toDomainModel
         \<lparr> GuidePostV_id = ''1'', GuidePostV_title = ''Test Post'',
           GuidePostV_description = ''This is a test post.'', GuidePostV_stars = Finite 5,
           GuidePostV_createdAt = DateValue 1735725600000,
           GuidePostV_updatedAt = DateValue 1735812000000 \<rparr>
       = Inr (test_post \<lparr> GuidePostD_created_at := ''2025-01-01T10:00:00.000Z'',
                           GuidePostD_updated_at := ''2025-01-02T10:00:00.000Z'' \<rparr>)
   \<and> test_post \<lparr> GuidePostD_created_at := ''2025-01-01T10:00:00.000Z'',
                   GuidePostD_updated_at := ''2025-01-02T10:00:00.000Z'' \<rparr> \<noteq> test_post"
  by (simp add: TodoMapper_toViewModel_def TodoMapper_toDomainModel_def usage_todo_def
      PostMapper_toViewModel_def PostMapper_toDomainModel_def usage_post_def
      AuthorMapper_toViewModel_def AuthorMapper_toDomainModel_def truthy_string_def
      Date_new_usage_todo Date_toISOString_usage_todo Date_new_usage_post
      Date_toISOString_usage_post test_post_def GuidePostMapper_toViewModel_def
      GuidePostMapper_toDomainModel_def Date_new_test_created Date_new_test_updated
      Date_toISOString_test_created Date_toISOString_test_updated)

text \<open>The theorem on the host in UTC: the todo and the test post.\<close>

theorem round_trip_of_usage_examples_witness:
  "TodoMapper_toViewModel utc_host usage_todo =
     Inr \<lparr> TodoV_id = ''t1'', TodoV_text = ''Buy milk'', TodoV_isDone = False,
           TodoV_dueDate = Some (DateValue 1750420800000) \<rparr>
   \<and> TodoMapper_toDomainModel
         \<lparr> TodoV_id = ''t1'', TodoV_text = ''Buy milk'', TodoV_isDone = False,
           TodoV_dueDate = Some (DateValue 1750420800000) \<rparr>
       = Inr \<lparr> TodoD_id = ''t1'', TodoD_text = ''Buy milk'', TodoD_completed = False,
               TodoD_due_date = Some ''2025-06-20T12:00:00.000Z'' \<rparr>
   \<and> GuidePostMapper_toDomainModel
         \<lparr> GuidePostV_id = ''1'', GuidePostV_title = ''Test Post'',
           GuidePostV_description = ''This is a test post.'', GuidePostV_stars = Finite 5,
           GuidePostV_createdAt = DateValue 1735725600000,
           GuidePostV_updatedAt = DateValue 1735812000000 \<rparr>
       = Inr \<lparr> GuidePostD_id = ''1'', GuidePostD_title = ''Test Post'',
               GuidePostD_description = ''This is a test post.'', GuidePostD_stars = Finite 5,
               GuidePostD_created_at = ''2025-01-01T10:00:00.000Z'',
               GuidePostD_updated_at = ''2025-01-02T10:00:00.000Z'' \<rparr>"
  using round_trip_of_usage_examples [of utc_host]
  by (simp add: usage_todo_def test_post_def)

end
